theory Spec2Isabelle
  imports Complex_Main
begin

section \<open>Dataset inputs of the local transforms API (\<^verbatim>\<open>transforms/api/_dataset.py\<close>)\<close>

text \<open>
  The module is glue between user code and three collaborators that live outside it: the
  configuration, the REST client and the cached client with its cache.  The embedding
  passes the collaborators in as a record of functions (\<open>foundry_context\<close>, the
  module-level \<^verbatim>\<open>TRANSFORMS_FOUNDRY_CONTEXT\<close>), threads the mutable part (the cache
  and a trace of every observable action: log lines, warnings and collaborator calls)
  through every method as a \<open>world\<close>, and returns raised exceptions as \<open>Inl\<close>.

  A collaborator call whose exceptions the module catches (\<^verbatim>\<open>get_dataset_identity\<close>,
  \<^verbatim>\<open>get_dataset_schema\<close>) answers with a sum; the other collaborator calls answer with
  a value.  The size in megabytes is an exact rational: for \<open>0 \<le> size < 2 ^ 53\<close> bytes the
  two float divisions by 1024 of the source are exact, so the comparison with the
  threshold agrees with the one on floats.
\<close>

subsection \<open>Python values and \<^verbatim>\<open>_as_list\<close>\<close>

datatype pyval = PyNone | PyBool bool | PyInt int | PyStr string | PyList "pyval list"

text \<open>Truth value testing of Python (\<^verbatim>\<open>not x\<close> is its negation).\<close>

fun truthy :: "pyval \<Rightarrow> bool" where
  "truthy PyNone = False"
| "truthy (PyBool b) = b"
| "truthy (PyInt i) = (i \<noteq> 0)"
| "truthy (PyStr s) = (s \<noteq> [])"
| "truthy (PyList xs) = (xs \<noteq> [])"

fun isinstance_list :: "pyval \<Rightarrow> bool" where
  "isinstance_list (PyList xs) = True"
| "isinstance_list v = False"

text \<open>The items of a value that is a list.\<close>

fun list_items :: "pyval \<Rightarrow> pyval list" where
  "list_items (PyList xs) = xs"
| "list_items v = []"

definition as_list :: "pyval \<Rightarrow> pyval list" where
  "as_list list_or_single_item =
     (if \<not> truthy list_or_single_item then []
      else if isinstance_list list_or_single_item then list_items list_or_single_item
      else [list_or_single_item])"

record UnmarkingDef =
  marking_ids :: "pyval list"
  branches :: "pyval list"

definition UnmarkingDef_init :: "pyval \<Rightarrow> pyval \<Rightarrow> UnmarkingDef" where
  "UnmarkingDef_init marking_ids' on_branches =
     \<lparr>marking_ids = as_list marking_ids', branches = as_list on_branches\<rparr>"

text \<open>\<^verbatim>\<open>Markings\<close> and \<^verbatim>\<open>OrgMarkings\<close> subclass \<^verbatim>\<open>UnmarkingDef\<close> with an empty body.\<close>

definition Markings_init :: "pyval \<Rightarrow> pyval \<Rightarrow> UnmarkingDef" where
  "Markings_init = UnmarkingDef_init"

definition OrgMarkings_init :: "pyval \<Rightarrow> pyval \<Rightarrow> UnmarkingDef" where
  "OrgMarkings_init = UnmarkingDef_init"

subsection \<open>Data model\<close>

datatype error =
    BranchNotFoundError
  | DatasetHasNoSchemaError
  | DatasetHasNoTransactionsError string
  | KeyError
  | TypeError

text \<open>A pyspark dataframe is opaque to the module: a handle.\<close>

datatype dataframe = DataFrame nat

datatype SQLReturnType = PANDAS | SPARK | ARROW | RAW

text \<open>
  \<open>record_fields\<close> stands for the part of a transaction that only the external
  \<^verbatim>\<open>is_dataset_a_view\<close> reads; \<open>totalFileSize\<close> is \<^verbatim>\<open>transaction["metadata"]["totalFileSize"]\<close>.
\<close>

record Transaction =
  record_fields :: string
  totalFileSize :: int

record SecuredTransaction =
  rid :: string
  transaction :: Transaction

record DatasetIdentity =
  dataset_path :: string
  dataset_rid :: string
  last_transaction_rid :: "string option"
  last_transaction :: "SecuredTransaction option"

text \<open>A \<^verbatim>\<open>pathlib.Path\<close>, kept as the expression that built it.\<close>

datatype path = Path string | Joinpath path "string list"

datatype event =
    Debug_instantiated string
  | Debug_branch_fallback string string
  | Debug_no_schema string string string
  | Debug_from_cache DatasetIdentity string
  | Debug_executing_query string string
  | Debug_caching DatasetIdentity string
  | Debug_size rat
  | Warn_no_git_branch
  | Warn_subset int string string rat rat
  | Rest_get_dataset_identity string string
  | Rest_get_dataset_schema string "string option" string
  | Rest_foundry_stats string string
  | Rest_query_foundry_sql string string SQLReturnType
  | Client_load_dataset string string
  | Client_fetch_dataset DatasetIdentity string
  | Cache_keys
  | Cache_getitem DatasetIdentity
  | Cache_setitem DatasetIdentity dataframe
  | Cache_get_dataset_identity_not_branch_aware string
  | Cache_dataset_has_schema DatasetIdentity
  | Cache_get_path_to_local_dataset DatasetIdentity

type_synonym cache_store = "DatasetIdentity \<Rightarrow> dataframe option"

record world =
  cache :: cache_store
  trace :: "event list"

record foundry_config =
  transforms_freeze_cache :: bool
  transforms_sql_sample_select_random :: bool
  transforms_sql_sample_row_limit :: int
  transforms_force_full_dataset_download :: bool
  transforms_sql_dataset_size_threshold :: rat

record foundry_rest_client =
  rest_get_dataset_identity :: "string \<Rightarrow> string \<Rightarrow> error + DatasetIdentity"
  rest_get_dataset_schema :: "string \<Rightarrow> string option \<Rightarrow> string \<Rightarrow> error + unit"
  rest_foundry_stats :: "string \<Rightarrow> string \<Rightarrow> int"
  rest_query_foundry_sql :: "string \<Rightarrow> string \<Rightarrow> SQLReturnType \<Rightarrow> dataframe"

text \<open>
  \<^verbatim>\<open>load_dataset\<close> and \<^verbatim>\<open>_fetch_dataset\<close> of the cached client may write the cache:
  they take the store and return the new one.
\<close>

record cached_foundry_client =
  client_load_dataset :: "string \<Rightarrow> string \<Rightarrow> cache_store \<Rightarrow> dataframe \<times> cache_store"
  client_fetch_dataset :: "DatasetIdentity \<Rightarrow> string \<Rightarrow> cache_store \<Rightarrow> string \<times> cache_store"
  cache_get_dataset_identity_not_branch_aware :: "string \<Rightarrow> DatasetIdentity"
  cache_dataset_has_schema :: "DatasetIdentity \<Rightarrow> bool"
  cache_get_path_to_local_dataset :: "DatasetIdentity \<Rightarrow> string"


text \<open>
  What \<^verbatim>\<open>_get_branch\<close> reads: \<^verbatim>\<open>git_toplevel_dir\<close>, the working directory, and the
  content of a path that is a regular file (\<open>None\<close> when \<^verbatim>\<open>is_file()\<close> is false).
\<close>

record filesystem =
  git_toplevel_dir :: "path \<Rightarrow> path option"
  cwd :: path
  read_file :: "path \<Rightarrow> string option"

record foundry_context =
  config :: foundry_config
  foundry_rest_client :: foundry_rest_client
  cached_foundry_client :: cached_foundry_client
  is_dataset_a_view :: "Transaction \<Rightarrow> bool"
  fs :: filesystem

record Input =
  self_is_spark_df_retrievable :: bool
  self_dataset_identity :: DatasetIdentity
  self_branch :: string
  self_spark_df :: "dataframe option"

subsection \<open>Strings and numbers of Python\<close>

fun str_nat :: "nat \<Rightarrow> string" where
  "str_nat n = (if n < 10 then [char_of (48 + n)]
                else str_nat (n div 10) @ [char_of (48 + n mod 10)])"

declare str_nat.simps [simp del]

definition str_int :: "int \<Rightarrow> string" where
  "str_int i = (if i < 0 then CHR ''-'' # str_nat (nat (- i)) else str_nat (nat i))"

text \<open>\<^verbatim>\<open>s.split(c)\<close> for a one-character separator: never empty.\<close>

fun split :: "char \<Rightarrow> string \<Rightarrow> string list" where
  "split c [] = [[]]"
| "split c (x # xs) =
     (if x = c then [] # split c xs
      else (case split c xs of
              [] \<Rightarrow> [[x]]
            | y # ys \<Rightarrow> (x # y) # ys))"

text \<open>The ASCII characters \<^verbatim>\<open>str.strip()\<close> removes.\<close>

definition isspace :: "char \<Rightarrow> bool" where
  "isspace c = (let n = (of_char c :: nat) in (9 \<le> n \<and> n \<le> 13) \<or> (28 \<le> n \<and> n \<le> 32))"

definition strip :: "string \<Rightarrow> string" where
  "strip s = rev (dropWhile isspace (rev (dropWhile isspace s)))"

definition startswith :: "string \<Rightarrow> string \<Rightarrow> bool" where
  "startswith s p = (take (length p) s = p)"

text \<open>\<^verbatim>\<open>round(x, ndigits=2)\<close>: to the nearest hundredth, a tie to the even one.\<close>

definition round_ndigits2 :: "rat \<Rightarrow> rat" where
  "round_ndigits2 x =
     (let y = x * 100; f = \<lfloor>y\<rfloor>; r = y - of_int f
      in of_int (if r < 1 / 2 then f
                 else if 1 / 2 < r then f + 1
                 else if even f then f else f + 1) / 100)"

subsection \<open>The world\<close>

definition emit :: "event \<Rightarrow> world \<Rightarrow> world" where
  "emit e w = w\<lparr>trace := trace w @ [e]\<rparr>"

text \<open>The events a run added to the trace.\<close>

definition new_events :: "world \<Rightarrow> world \<Rightarrow> event list" where
  "new_events w w' = drop (length (trace w)) (trace w')"

fun is_rest_call :: "event \<Rightarrow> bool" where
  "is_rest_call (Rest_get_dataset_identity a b) = True"
| "is_rest_call (Rest_get_dataset_schema r t b) = True"
| "is_rest_call (Rest_foundry_stats r t) = True"
| "is_rest_call (Rest_query_foundry_sql q b rt) = True"
| "is_rest_call e = False"

fun is_get_dataset_identity :: "event \<Rightarrow> bool" where
  "is_get_dataset_identity (Rest_get_dataset_identity a b) = True"
| "is_get_dataset_identity e = False"

fun is_schema_lookup :: "event \<Rightarrow> bool" where
  "is_schema_lookup (Rest_get_dataset_schema r t b) = True"
| "is_schema_lookup (Cache_dataset_has_schema d) = True"
| "is_schema_lookup e = False"

fun is_data_retrieval :: "event \<Rightarrow> bool" where
  "is_data_retrieval (Rest_foundry_stats r t) = True"
| "is_data_retrieval (Rest_query_foundry_sql q b rt) = True"
| "is_data_retrieval (Client_load_dataset r b) = True"
| "is_data_retrieval (Client_fetch_dataset d b) = True"
| "is_data_retrieval (Cache_keys) = True"
| "is_data_retrieval (Cache_getitem d) = True"
| "is_data_retrieval (Cache_setitem d f) = True"
| "is_data_retrieval (Cache_get_path_to_local_dataset d) = True"
| "is_data_retrieval e = False"

fun is_full_download :: "event \<Rightarrow> bool" where
  "is_full_download (Client_load_dataset r b) = True"
| "is_full_download e = False"

fun is_sampled_query :: "event \<Rightarrow> bool" where
  "is_sampled_query (Rest_query_foundry_sql q b rt) = True"
| "is_sampled_query e = False"

fun is_warning :: "event \<Rightarrow> bool" where
  "is_warning Warn_no_git_branch = True"
| "is_warning (Warn_subset n d r s t) = True"
| "is_warning e = False"

fun is_cache_write :: "event \<Rightarrow> bool" where
  "is_cache_write (Cache_setitem d f) = True"
| "is_cache_write e = False"

fun is_no_schema_log :: "event \<Rightarrow> bool" where
  "is_no_schema_log (Debug_no_schema r p b) = True"
| "is_no_schema_log e = False"

subsection \<open>\<^verbatim>\<open>_get_branch\<close>\<close>

definition get_branch :: "filesystem \<Rightarrow> path \<Rightarrow> string \<times> event list" where
  "get_branch env caller_filename =
     (let git_dir = (case git_toplevel_dir env caller_filename of
                       None \<Rightarrow> cwd env
                     | Some d \<Rightarrow> d);
          head_file = Joinpath git_dir [''.git'', ''HEAD'']
      in case read_file env head_file of
           Some content \<Rightarrow>
             (let ref = strip content
              in if startswith ref ''ref: refs/heads/'' then (drop 16 ref, [])
                 else (''HEAD'', []))
         | None \<Rightarrow> (''master'', [Warn_no_git_branch]))"

subsection \<open>The class \<^verbatim>\<open>Input\<close>\<close>

definition is_online :: "foundry_context \<Rightarrow> bool" where
  "is_online ctx = (\<not> transforms_freeze_cache (config ctx))"

definition dataset_has_schema ::
  "foundry_context \<Rightarrow> DatasetIdentity \<Rightarrow> string \<Rightarrow> world \<Rightarrow> (error + bool) \<times> world" where
  "dataset_has_schema ctx dataset_identity branch w =
     (let w1 = emit (Rest_get_dataset_schema (dataset_rid dataset_identity)
                       (last_transaction_rid dataset_identity) branch) w
      in case rest_get_dataset_schema (foundry_rest_client ctx) (dataset_rid dataset_identity)
                (last_transaction_rid dataset_identity) branch of
           Inl e \<Rightarrow> if e = DatasetHasNoSchemaError then (Inr False, w1) else (Inl e, w1)
         | Inr schema \<Rightarrow> (Inr True, w1))"

definition online ::
  "foundry_context \<Rightarrow> string \<Rightarrow> string \<Rightarrow> world
     \<Rightarrow> (error + bool \<times> DatasetIdentity \<times> string) \<times> world" where
  "online ctx alias branch w =
     (let rc = foundry_rest_client ctx;
          w1 = emit (Rest_get_dataset_identity alias branch) w;
          (res, branch', w2) =
            (case rest_get_dataset_identity rc alias branch of
               Inr dataset_identity \<Rightarrow> (Inr dataset_identity, branch, w1)
             | Inl e \<Rightarrow>
                 if e = BranchNotFoundError
                 then (rest_get_dataset_identity rc alias ''master'', ''master'',
                       emit (Rest_get_dataset_identity alias ''master'')
                         (emit (Debug_branch_fallback alias branch) w1))
                 else (Inl e, branch, w1))
      in case res of
           Inl e \<Rightarrow> (Inl e, w2)
         | Inr dataset_identity \<Rightarrow>
             if last_transaction_rid dataset_identity = None
             then (Inl (DatasetHasNoTransactionsError alias), w2)
             else (case dataset_has_schema ctx dataset_identity branch' w2 of
                     (Inl e, w3) \<Rightarrow> (Inl e, w3)
                   | (Inr has_schema, w3) \<Rightarrow>
                       if has_schema then (Inr (True, dataset_identity, branch'), w3)
                       else (Inr (False, dataset_identity, branch'),
                             emit (Debug_no_schema (dataset_rid dataset_identity)
                                     (dataset_path dataset_identity) branch') w3)))"

definition offline ::
  "foundry_context \<Rightarrow> string \<Rightarrow> string \<Rightarrow> world
     \<Rightarrow> (error + bool \<times> DatasetIdentity \<times> string) \<times> world" where
  "offline ctx alias branch w =
     (let cc = cached_foundry_client ctx;
          dataset_identity = cache_get_dataset_identity_not_branch_aware cc alias;
          w1 = emit (Cache_get_dataset_identity_not_branch_aware alias) w;
          w2 = emit (Cache_dataset_has_schema dataset_identity) w1
      in if cache_dataset_has_schema cc dataset_identity
         then (Inr (True, dataset_identity, branch), w2)
         else (Inr (False, dataset_identity, branch), w2))"

text \<open>
  \<^verbatim>\<open>if branch is None: branch = _get_branch(Path(caller_filename))\<close>: the branch the
  constructor starts from, and the warning \<^verbatim>\<open>_get_branch\<close> may emit.
\<close>

definition resolve_branch :: "foundry_context \<Rightarrow> string \<Rightarrow> string option \<Rightarrow> string \<times> event list" where
  "resolve_branch ctx caller_filename branch =
     (case branch of
        None \<Rightarrow> get_branch (fs ctx) (Path caller_filename)
      | Some b \<Rightarrow> (b, []))"

definition requested_branch :: "foundry_context \<Rightarrow> string \<Rightarrow> string option \<Rightarrow> string" where
  "requested_branch ctx caller_filename branch = fst (resolve_branch ctx caller_filename branch)"

text \<open>
  \<^verbatim>\<open>__init__\<close>: \<open>caller_filename\<close> is \<^verbatim>\<open>inspect.stack()[1].filename\<close>; the arguments
  the constructor ignores (description, stop_propagating, stop_requiring, checks) are left
  out.
\<close>

text \<open>The world after the constructor's first lines (its log line, and the branch lookup).\<close>

definition constructor_start :: "foundry_context \<Rightarrow> string \<Rightarrow> string option \<Rightarrow> world \<Rightarrow> world" where
  "constructor_start ctx caller_filename branch w =
     (let w0 = emit (Debug_instantiated caller_filename) w
      in w0\<lparr>trace := trace w0 @ snd (resolve_branch ctx caller_filename branch)\<rparr>)"

definition Input_init ::
  "foundry_context \<Rightarrow> string \<Rightarrow> string \<Rightarrow> string option \<Rightarrow> world \<Rightarrow> (error + Input) \<times> world" where
  "Input_init ctx caller_filename alias branch w =
     (let w1 = constructor_start ctx caller_filename branch w;
          branch' = requested_branch ctx caller_filename branch
      in case (if is_online ctx then online ctx alias branch' w1
               else offline ctx alias branch' w1) of
           (Inl e, w2) \<Rightarrow> (Inl e, w2)
         | (Inr (retrievable, dataset_identity, branch''), w2) \<Rightarrow>
             (Inr \<lparr>self_is_spark_df_retrievable = retrievable,
                   self_dataset_identity = dataset_identity,
                   self_branch = branch'',
                   self_spark_df = None\<rparr>, w2))"

definition retrieve_from_cache ::
  "foundry_context \<Rightarrow> DatasetIdentity \<Rightarrow> string \<Rightarrow> world \<Rightarrow> (error + dataframe) \<times> world" where
  "retrieve_from_cache ctx dataset_identity branch w =
     (let w1 = emit (Debug_from_cache dataset_identity branch) w;
          w2 = emit (Cache_getitem dataset_identity) w1
      in case cache w2 dataset_identity of
           None \<Rightarrow> (Inl KeyError, w2)
         | Some df \<Rightarrow> (Inr df, w2))"

text \<open>The query text \<^verbatim>\<open>_read_spark_df_with_sql_query\<close> builds, step by step as the source does.\<close>

definition sample_query :: "foundry_context \<Rightarrow> string \<Rightarrow> string" where
  "sample_query ctx dataset_path' =
     (let query0 = ''SELECT * FROM `'' @ dataset_path' @ ''`'';
          query1 = (if transforms_sql_sample_select_random (config ctx)
                    then query0 @ '' ORDER BY RAND()'' else query0)
      in query1 @ '' LIMIT '' @ str_int (transforms_sql_sample_row_limit (config ctx)))"

definition read_spark_df_with_sql_query ::
  "foundry_context \<Rightarrow> string \<Rightarrow> string \<Rightarrow> world \<Rightarrow> dataframe \<times> world" where
  "read_spark_df_with_sql_query ctx dataset_path' branch w =
     (let query = sample_query ctx dataset_path';
          w1 = emit (Debug_executing_query query branch) w;
          w2 = emit (Rest_query_foundry_sql query branch SPARK) w1
      in (rest_query_foundry_sql (foundry_rest_client ctx) query branch SPARK, w2))"

text \<open>The size the threshold is compared with, as the source computes it.\<close>

definition size_in_bytes :: "foundry_context \<Rightarrow> DatasetIdentity \<Rightarrow> SecuredTransaction \<Rightarrow> int" where
  "size_in_bytes ctx dataset_identity lt =
     (if is_dataset_a_view ctx (transaction lt)
      then rest_foundry_stats (foundry_rest_client ctx) (dataset_rid dataset_identity) (rid lt)
      else totalFileSize (transaction lt))"

definition size_in_mega_bytes :: "foundry_context \<Rightarrow> DatasetIdentity \<Rightarrow> SecuredTransaction \<Rightarrow> rat" where
  "size_in_mega_bytes ctx dataset_identity lt =
     of_int (size_in_bytes ctx dataset_identity lt) / 1024 / 1024"

text \<open>What \<^verbatim>\<open>_retrieve_from_foundry_and_cache\<close> does before it chooses how to fetch.\<close>

definition size_events :: "foundry_context \<Rightarrow> DatasetIdentity \<Rightarrow> SecuredTransaction \<Rightarrow> string \<Rightarrow> event list" where
  "size_events ctx dataset_identity lt branch =
     Debug_caching dataset_identity branch #
     (if is_dataset_a_view ctx (transaction lt)
      then [Rest_foundry_stats (dataset_rid dataset_identity) (rid lt)] else []) @
     [Debug_size (round_ndigits2 (size_in_mega_bytes ctx dataset_identity lt))]"

definition retrieve_from_foundry_and_cache ::
  "foundry_context \<Rightarrow> DatasetIdentity \<Rightarrow> string \<Rightarrow> world \<Rightarrow> (error + dataframe) \<times> world" where
  "retrieve_from_foundry_and_cache ctx dataset_identity branch w =
     (let w1 = emit (Debug_caching dataset_identity branch) w
      in case last_transaction dataset_identity of
           None \<Rightarrow> (Inl TypeError, w1)
         | Some lt \<Rightarrow>
             (let w2 = (if is_dataset_a_view ctx (transaction lt)
                        then emit (Rest_foundry_stats (dataset_rid dataset_identity) (rid lt)) w1
                        else w1);
                  size_mb = size_in_mega_bytes ctx dataset_identity lt;
                  size_in_mega_bytes_rounded = round_ndigits2 size_mb;
                  w3 = emit (Debug_size size_in_mega_bytes_rounded) w2
              in if transforms_force_full_dataset_download (config ctx)
                    \<or> size_mb < transforms_sql_dataset_size_threshold (config ctx)
                 then (let w4 = emit (Client_load_dataset (dataset_rid dataset_identity) branch) w3;
                           (spark_df, cache') =
                              client_load_dataset (cached_foundry_client ctx)
                                (dataset_rid dataset_identity) branch (cache w4)
                       in (Inr spark_df, w4\<lparr>cache := cache'\<rparr>))
                 else (let dataset_name = last (split CHR ''/'' (dataset_path dataset_identity));
                           w4 = emit (Warn_subset (transforms_sql_sample_row_limit (config ctx))
                                        dataset_name (dataset_rid dataset_identity)
                                        size_in_mega_bytes_rounded
                                        (transforms_sql_dataset_size_threshold (config ctx))) w3;
                           (spark_df, w5) =
                              read_spark_df_with_sql_query ctx (dataset_path dataset_identity) branch w4;
                           w6 = emit (Cache_setitem dataset_identity spark_df) w5
                       in (Inr spark_df, w6\<lparr>cache := (cache w6)(dataset_identity \<mapsto> spark_df)\<rparr>))))"

definition retrieve_spark_df ::
  "foundry_context \<Rightarrow> DatasetIdentity \<Rightarrow> string \<Rightarrow> world \<Rightarrow> (error + dataframe) \<times> world" where
  "retrieve_spark_df ctx dataset_identity branch w =
     (let w1 = emit Cache_keys w
      in if cache w1 dataset_identity \<noteq> None
         then retrieve_from_cache ctx dataset_identity branch w1
         else retrieve_from_foundry_and_cache ctx dataset_identity branch w1)"

definition dataframe ::
  "foundry_context \<Rightarrow> Input \<Rightarrow> world \<Rightarrow> (error + dataframe option) \<times> Input \<times> world" where
  "dataframe ctx self w =
     (if self_is_spark_df_retrievable self \<and> self_spark_df self = None
      then (case (if is_online ctx
                  then retrieve_spark_df ctx (self_dataset_identity self) (self_branch self) w
                  else (let w1 = emit (Cache_getitem (self_dataset_identity self)) w
                        in case cache w1 (self_dataset_identity self) of
                             None \<Rightarrow> (Inl KeyError, w1)
                           | Some df \<Rightarrow> (Inr df, w1))) of
              (Inl e, w') \<Rightarrow> (Inl e, self, w')
            | (Inr df, w') \<Rightarrow> (Inr (Some df), self\<lparr>self_spark_df := Some df\<rparr>, w'))
      else (Inr (self_spark_df self), self, w))"

definition get_dataset_identity ::
  "foundry_context \<Rightarrow> Input \<Rightarrow> world \<Rightarrow> DatasetIdentity \<times> Input \<times> world" where
  "get_dataset_identity ctx self w = (self_dataset_identity self, self, w)"

definition get_local_path_to_dataset ::
  "foundry_context \<Rightarrow> Input \<Rightarrow> world \<Rightarrow> string \<times> Input \<times> world" where
  "get_local_path_to_dataset ctx self w =
     (if is_online ctx
      then (let w1 = emit (Client_fetch_dataset (self_dataset_identity self) (self_branch self)) w;
                (p, cache') = client_fetch_dataset (cached_foundry_client ctx)
                                (self_dataset_identity self) (self_branch self) (cache w1)
            in (p, self, w1\<lparr>cache := cache'\<rparr>))
      else (cache_get_path_to_local_dataset (cached_foundry_client ctx) (self_dataset_identity self),
            self,
            emit (Cache_get_path_to_local_dataset (self_dataset_identity self)) w))"

subsection \<open>Sequences of calls on one Input\<close>

datatype call = Dataframe | Get_dataset_identity | Get_local_path_to_dataset

datatype call_result =
    Dataframe_result "error + dataframe option"
  | Identity_result DatasetIdentity
  | Path_result string

fun run_call :: "foundry_context \<Rightarrow> call \<Rightarrow> Input \<Rightarrow> world \<Rightarrow> call_result \<times> Input \<times> world" where
  "run_call ctx Dataframe self w =
     (case dataframe ctx self w of (r, self', w') \<Rightarrow> (Dataframe_result r, self', w'))"
| "run_call ctx Get_dataset_identity self w =
     (case get_dataset_identity ctx self w of (r, self', w') \<Rightarrow> (Identity_result r, self', w'))"
| "run_call ctx Get_local_path_to_dataset self w =
     (case get_local_path_to_dataset ctx self w of (r, self', w') \<Rightarrow> (Path_result r, self', w'))"

text \<open>
  Any number of calls, each under the configuration and collaborators of its moment; an
  exception of one call leaves the Input to the next.
\<close>

fun run_calls ::
  "(foundry_context \<times> call) list \<Rightarrow> Input \<Rightarrow> world \<Rightarrow> call_result list \<times> Input \<times> world" where
  "run_calls [] self w = ([], self, w)"
| "run_calls ((ctx, c) # cs) self w =
     (case run_call ctx c self w of
        (r, self', w') \<Rightarrow>
          (case run_calls cs self' w' of
             (rs, self'', w'') \<Rightarrow> (r # rs, self'', w'')))"

text \<open>A call result that is not a \<^verbatim>\<open>dataframe()\<close> that returned a dataframe or raised.\<close>

fun dataframe_returned_none :: "call_result \<Rightarrow> bool" where
  "dataframe_returned_none (Dataframe_result x) = (x = Inr None)"
| "dataframe_returned_none r = True"

subsection \<open>Example collaborators\<close>

definition ex_transaction :: "int \<Rightarrow> SecuredTransaction" where
  "ex_transaction n =
     \<lparr>rid = ''ri.foundry.main.transaction.1'',
      transaction = \<lparr>record_fields = '''', totalFileSize = n\<rparr>\<rparr>"

definition ex_identity :: "int \<Rightarrow> DatasetIdentity" where
  "ex_identity n =
     \<lparr>dataset_path = ''/data/iris'',
      dataset_rid = ''ri.foundry.main.dataset.1'',
      last_transaction_rid = Some ''ri.foundry.main.transaction.1'',
      last_transaction = Some (ex_transaction n)\<rparr>"

definition ex_empty_identity :: DatasetIdentity where
  "ex_empty_identity =
     \<lparr>dataset_path = ''/data/empty'',
      dataset_rid = ''ri.foundry.main.dataset.2'',
      last_transaction_rid = None,
      last_transaction = None\<rparr>"

definition ex_config :: foundry_config where
  "ex_config =
     \<lparr>transforms_freeze_cache = False,
      transforms_sql_sample_select_random = False,
      transforms_sql_sample_row_limit = 5000,
      transforms_force_full_dataset_download = False,
      transforms_sql_dataset_size_threshold = 500\<rparr>"

text \<open>
  A REST client that knows the dataset \<^verbatim>\<open>/data/iris\<close> (of \<open>n\<close> bytes) on master only and
  the dataset \<^verbatim>\<open>/data/empty\<close>, which has no transaction, on every branch; \<open>schema\<close> is
  its answer to every schema request.
\<close>

definition ex_rest :: "int \<Rightarrow> error + unit \<Rightarrow> foundry_rest_client" where
  "ex_rest n schema =
     \<lparr>rest_get_dataset_identity =
        (\<lambda>alias branch.
           if alias = ''/data/empty'' then Inr ex_empty_identity
           else if branch = ''master'' then Inr (ex_identity n)
           else Inl BranchNotFoundError),
      rest_get_dataset_schema = (\<lambda>r t b. schema),
      rest_foundry_stats = (\<lambda>r t. 0),
      rest_query_foundry_sql = (\<lambda>q b rt. DataFrame 2)\<rparr>"

text \<open>
  A cached client whose cache holds the identity \<open>cached\<close> under every alias, whose
  \<^verbatim>\<open>load_dataset\<close> stores the dataframe it loads under that identity, and whose
  \<^verbatim>\<open>_fetch_dataset\<close> leaves the store as it is.
\<close>

definition ex_client :: "DatasetIdentity \<Rightarrow> bool \<Rightarrow> cached_foundry_client" where
  "ex_client cached has_schema =
     \<lparr>client_load_dataset = (\<lambda>r b c. (DataFrame 1, c(cached \<mapsto> DataFrame 1))),
      client_fetch_dataset = (\<lambda>d b c. (''/cache/iris'', c)),
      cache_get_dataset_identity_not_branch_aware = (\<lambda>alias. cached),
      cache_dataset_has_schema = (\<lambda>d. has_schema),
      cache_get_path_to_local_dataset = (\<lambda>d. ''/cache/iris'')\<rparr>"

definition ex_fs :: filesystem where
  "ex_fs =
     \<lparr>git_toplevel_dir = (\<lambda>p. Some (Path ''/repo'')),
      cwd = Path ''/home'',
      read_file = (\<lambda>p. if p = Joinpath (Path ''/repo'') [''.git'', ''HEAD'']
                        then Some (''ref: refs/heads/feature'' @ [CHR 0x0A]) else None)\<rparr>"

definition ex_ctx :: "foundry_config \<Rightarrow> int \<Rightarrow> error + unit \<Rightarrow> DatasetIdentity \<Rightarrow> bool \<Rightarrow> foundry_context" where
  "ex_ctx cfg n schema cached has_schema =
     \<lparr>config = cfg,
      foundry_rest_client = ex_rest n schema,
      cached_foundry_client = ex_client cached has_schema,
      is_dataset_a_view = (\<lambda>t. False),
      fs = ex_fs\<rparr>"

definition ex_input :: "bool \<Rightarrow> int \<Rightarrow> Input" where
  "ex_input retrievable n =
     \<lparr>self_is_spark_df_retrievable = retrievable,
      self_dataset_identity = ex_identity n,
      self_branch = ''master'',
      self_spark_df = None\<rparr>"

definition ex_world :: world where
  "ex_world = \<lparr>cache = (\<lambda>d. None), trace = []\<rparr>"

text \<open>
  The example contexts: online with the default configuration; online with the force
  flag; online with a REST client that reports no schema; offline (frozen cache).
\<close>

definition ex_online :: "int \<Rightarrow> foundry_context" where
  "ex_online n = ex_ctx ex_config n (Inr ()) (ex_identity n) True"

definition ex_forced :: "int \<Rightarrow> foundry_context" where
  "ex_forced n =
     ex_ctx (ex_config\<lparr>transforms_force_full_dataset_download := True\<rparr>) n (Inr ())
       (ex_identity n) True"

definition ex_no_schema :: "int \<Rightarrow> foundry_context" where
  "ex_no_schema n = ex_ctx ex_config n (Inl DatasetHasNoSchemaError) (ex_identity n) False"

definition ex_offline :: "DatasetIdentity \<Rightarrow> bool \<Rightarrow> foundry_context" where
  "ex_offline cached has_schema =
     ex_ctx (ex_config\<lparr>transforms_freeze_cache := True\<rparr>) 0 (Inr ()) cached has_schema"

section \<open>Properties\<close>

subsection \<open>Traces\<close>

lemma trace_emit [simp]: "trace (emit e w) = trace w @ [e]"
  by (simp add: emit_def)

lemma cache_emit [simp]: "cache (emit e w) = cache w"
  by (simp add: emit_def)

lemma new_events_append: "trace w' = trace w @ evs \<Longrightarrow> new_events w w' = evs"
  by (simp add: new_events_def)

lemma resolve_branch_events:
  "snd (resolve_branch ctx c b) = [] \<or> snd (resolve_branch ctx c b) = [Warn_no_git_branch]"
  by (cases b) (simp_all add: resolve_branch_def get_branch_def Let_def split: option.splits)

lemma resolve_branch_filter:
  "\<not> P Warn_no_git_branch \<Longrightarrow> filter P (snd (resolve_branch ctx c b)) = []"
  using resolve_branch_events [of ctx c b] by auto

lemma resolve_branch_list_ex:
  "\<not> P Warn_no_git_branch \<Longrightarrow> \<not> list_ex P (snd (resolve_branch ctx c b))"
  using resolve_branch_events [of ctx c b] by auto

lemma size_events_plain:
  "\<not> list_ex is_full_download (size_events ctx di lt br)"
  "\<not> list_ex is_sampled_query (size_events ctx di lt br)"
  "\<not> list_ex is_warning (size_events ctx di lt br)"
  "\<not> list_ex is_cache_write (size_events ctx di lt br)"
  "filter is_sampled_query (size_events ctx di lt br) = []"
  by (simp_all add: size_events_def)

subsection \<open>\<^verbatim>\<open>_as_list\<close>\<close>

lemma as_list_cases:
  "as_list (PyList xs) = xs"
  "as_list PyNone = []"
  "truthy v \<Longrightarrow> \<not> isinstance_list v \<Longrightarrow> as_list v = [v]"
  "\<not> truthy v \<Longrightarrow> as_list v = []"
  by (simp_all add: as_list_def)

text \<open>
  C8, at the input where the code leaves the claim: the single item \<^verbatim>\<open>""\<close> (a \<^verbatim>\<open>str\<close>,
  not a list) is stored as the empty list, not as the one-element list.
\<close>

theorem C8_as_list_drops_falsy_item:
  "\<not> isinstance_list (PyStr [])
   \<and> as_list (PyStr []) = []
   \<and> marking_ids (UnmarkingDef_init (PyStr []) PyNone) = []
   \<and> marking_ids (Markings_init (PyStr []) PyNone) = []
   \<and> marking_ids (OrgMarkings_init (PyStr []) PyNone) = []
   \<and> as_list (PyInt 0) = []"
  by (simp add: as_list_def UnmarkingDef_init_def Markings_init_def OrgMarkings_init_def)

subsection \<open>Retrieval\<close>

lemma read_spark_df_with_sql_query_result:
  "fst (read_spark_df_with_sql_query ctx p br w) =
     rest_query_foundry_sql (foundry_rest_client ctx) (sample_query ctx p) br SPARK"
  "cache (snd (read_spark_df_with_sql_query ctx p br w)) = cache w"
  "trace (snd (read_spark_df_with_sql_query ctx p br w)) =
     trace w @ [Debug_executing_query (sample_query ctx p) br,
                Rest_query_foundry_sql (sample_query ctx p) br SPARK]"
  by (simp_all add: read_spark_df_with_sql_query_def Let_def)

lemma retrieve_full:
  assumes "last_transaction di = Some lt"
    and "transforms_force_full_dataset_download (config ctx)
         \<or> size_in_mega_bytes ctx di lt < transforms_sql_dataset_size_threshold (config ctx)"
  shows "fst (retrieve_from_foundry_and_cache ctx di br w) =
           Inr (fst (client_load_dataset (cached_foundry_client ctx) (dataset_rid di) br (cache w)))"
    and "cache (snd (retrieve_from_foundry_and_cache ctx di br w)) =
           snd (client_load_dataset (cached_foundry_client ctx) (dataset_rid di) br (cache w))"
    and "trace (snd (retrieve_from_foundry_and_cache ctx di br w)) =
           trace w @ size_events ctx di lt br @ [Client_load_dataset (dataset_rid di) br]"
  by (simp_all add: assms retrieve_from_foundry_and_cache_def size_events_def Let_def
        case_prod_beta)

lemma retrieve_sampled:
  assumes "last_transaction di = Some lt"
    and "\<not> transforms_force_full_dataset_download (config ctx)"
    and "\<not> size_in_mega_bytes ctx di lt < transforms_sql_dataset_size_threshold (config ctx)"
  shows "fst (retrieve_from_foundry_and_cache ctx di br w) =
           Inr (rest_query_foundry_sql (foundry_rest_client ctx)
                  (sample_query ctx (dataset_path di)) br SPARK)"
    and "cache (snd (retrieve_from_foundry_and_cache ctx di br w)) =
           (cache w)(di \<mapsto> rest_query_foundry_sql (foundry_rest_client ctx)
                               (sample_query ctx (dataset_path di)) br SPARK)"
    and "trace (snd (retrieve_from_foundry_and_cache ctx di br w)) =
           trace w @ size_events ctx di lt br @
           [Warn_subset (transforms_sql_sample_row_limit (config ctx))
              (last (split CHR ''/'' (dataset_path di))) (dataset_rid di)
              (round_ndigits2 (size_in_mega_bytes ctx di lt))
              (transforms_sql_dataset_size_threshold (config ctx)),
            Debug_executing_query (sample_query ctx (dataset_path di)) br,
            Rest_query_foundry_sql (sample_query ctx (dataset_path di)) br SPARK,
            Cache_setitem di (rest_query_foundry_sql (foundry_rest_client ctx)
                                (sample_query ctx (dataset_path di)) br SPARK)]"
  by (simp_all add: assms retrieve_from_foundry_and_cache_def size_events_def Let_def
        case_prod_beta read_spark_df_with_sql_query_result)

lemma retrieve_spark_df_uncached:
  "cache w di = None \<Longrightarrow>
     retrieve_spark_df ctx di br w = retrieve_from_foundry_and_cache ctx di br (emit Cache_keys w)"
  by (simp add: retrieve_spark_df_def Let_def)


lemma dataframe_online_first:
  assumes "is_online ctx" and "self_is_spark_df_retrievable self" and "self_spark_df self = None"
  shows "fst (dataframe ctx self w) =
           map_sum id Some (fst (retrieve_spark_df ctx (self_dataset_identity self) (self_branch self) w))"
    and "snd (snd (dataframe ctx self w)) =
           snd (retrieve_spark_df ctx (self_dataset_identity self) (self_branch self) w)"
  by (simp_all add: assms dataframe_def case_prod_beta split: sum.splits)

text \<open>
  C10: in the uncached online retrieval the full download is taken exactly when the force
  flag is set or the size in megabytes is strictly below the threshold; otherwise, and so
  for a size equal to the threshold without the force flag, the sampled query is taken and
  the warning emitted; with the force flag the download is full whatever the size, with no
  warning.
\<close>

theorem C10_full_download_iff_forced_or_below_threshold:
  fixes ctx :: foundry_context and di :: DatasetIdentity and lt :: SecuredTransaction
    and br :: string and w :: world
  defines "evs \<equiv> new_events w (snd (retrieve_from_foundry_and_cache ctx di br w))"
    and "force \<equiv> transforms_force_full_dataset_download (config ctx)"
    and "size_mb \<equiv> size_in_mega_bytes ctx di lt"
    and "threshold \<equiv> transforms_sql_dataset_size_threshold (config ctx)"
  assumes lt: "last_transaction di = Some lt"
  shows "(list_ex is_full_download evs \<longleftrightarrow> force \<or> size_mb < threshold)
       \<and> (list_ex is_sampled_query evs \<longleftrightarrow> \<not> (force \<or> size_mb < threshold))
       \<and> (list_ex is_warning evs \<longleftrightarrow> \<not> (force \<or> size_mb < threshold))
       \<and> (size_mb = threshold \<and> \<not> force \<longrightarrow>
            list_ex is_sampled_query evs \<and> list_ex is_warning evs \<and> \<not> list_ex is_full_download evs)
       \<and> (force \<longrightarrow>
            list_ex is_full_download evs \<and> \<not> list_ex is_warning evs \<and> \<not> list_ex is_sampled_query evs)"
proof (cases "force \<or> size_mb < threshold")
  case True
  then have c: "transforms_force_full_dataset_download (config ctx)
      \<or> size_in_mega_bytes ctx di lt < transforms_sql_dataset_size_threshold (config ctx)"
    by (simp add: force_def size_mb_def threshold_def)
  have "evs = size_events ctx di lt br @ [Client_load_dataset (dataset_rid di) br]"
    unfolding evs_def by (rule new_events_append) (rule retrieve_full(3) [OF lt c])
  with True show ?thesis
    by (auto simp add: size_events_plain)
next
  case False
  then have f: "\<not> transforms_force_full_dataset_download (config ctx)"
    and s: "\<not> size_in_mega_bytes ctx di lt < transforms_sql_dataset_size_threshold (config ctx)"
    by (simp_all add: force_def size_mb_def threshold_def)
  have "evs = size_events ctx di lt br @
           [Warn_subset (transforms_sql_sample_row_limit (config ctx))
              (last (split CHR ''/'' (dataset_path di))) (dataset_rid di)
              (round_ndigits2 (size_in_mega_bytes ctx di lt))
              (transforms_sql_dataset_size_threshold (config ctx)),
            Debug_executing_query (sample_query ctx (dataset_path di)) br,
            Rest_query_foundry_sql (sample_query ctx (dataset_path di)) br SPARK,
            Cache_setitem di (rest_query_foundry_sql (foundry_rest_client ctx)
                                (sample_query ctx (dataset_path di)) br SPARK)]"
    unfolding evs_def by (rule new_events_append) (rule retrieve_sampled(3) [OF lt f s])
  with False show ?thesis
    by (auto simp add: size_events_plain)
qed

subsection \<open>Calls on a constructed Input\<close>

lemma run_call_frame:
  "self_dataset_identity (fst (snd (run_call ctx c self w))) = self_dataset_identity self
   \<and> self_branch (fst (snd (run_call ctx c self w))) = self_branch self"
  by (cases c)
     (simp_all add: dataframe_def get_dataset_identity_def get_local_path_to_dataset_def
        Let_def case_prod_beta split: sum.splits)

text \<open>
  C7: whatever calls of \<^verbatim>\<open>dataframe()\<close>, \<^verbatim>\<open>get_dataset_identity()\<close> and
  \<^verbatim>\<open>get_local_path_to_dataset()\<close> follow the constructor, in whatever order and under
  whatever configuration, the Input keeps its dataset identity and its branch.
\<close>

theorem C7_calls_keep_identity_and_branch:
  "self_dataset_identity (fst (snd (run_calls cs self w))) = self_dataset_identity self
   \<and> self_branch (fst (snd (run_calls cs self w))) = self_branch self"
proof (induction cs arbitrary: self w)
  case Nil
  show ?case by simp
next
  case (Cons a cs)
  obtain ctx c where a: "a = (ctx, c)" by (cases a)
  show ?case
    by (simp add: a case_prod_beta Cons.IH run_call_frame)
qed

subsection \<open>The examples, evaluated\<close>

lemmas ex_defs =
  ex_online_def ex_forced_def ex_no_schema_def ex_offline_def ex_ctx_def ex_rest_def
  ex_client_def ex_config_def ex_identity_def ex_empty_identity_def ex_transaction_def
  ex_input_def ex_world_def ex_fs_def

lemma ex_size [simp]:
  "size_in_mega_bytes (ex_online n) (ex_identity n) (ex_transaction n) = of_int n / 1024 / 1024"
  "size_in_mega_bytes (ex_forced n) (ex_identity n) (ex_transaction n) = of_int n / 1024 / 1024"
  by (simp_all add: size_in_mega_bytes_def size_in_bytes_def ex_defs)

lemma ex_config_fields [simp]:
  "is_online (ex_online n)"
  "is_online (ex_forced n)"
  "is_online (ex_no_schema n)"
  "\<not> is_online (ex_offline cached s)"
  "transforms_sql_dataset_size_threshold (config (ex_online n)) = 500"
  "transforms_sql_dataset_size_threshold (config (ex_forced n)) = 500"
  "\<not> transforms_force_full_dataset_download (config (ex_online n))"
  "transforms_force_full_dataset_download (config (ex_forced n))"
  "\<not> transforms_sql_sample_select_random (config (ex_online n))"
  "transforms_sql_sample_row_limit (config (ex_online n)) = 5000"
  by (simp_all add: is_online_def ex_defs)

lemma ex_input_fields [simp]:
  "self_is_spark_df_retrievable (ex_input r n) = r"
  "self_spark_df (ex_input r n) = None"
  "self_dataset_identity (ex_input r n) = ex_identity n"
  "self_branch (ex_input r n) = ''master''"
  "last_transaction (ex_identity n) = Some (ex_transaction n)"
  "dataset_path (ex_identity n) = ''/data/iris''"
  "dataset_rid (ex_identity n) = ''ri.foundry.main.dataset.1''"
  "cache ex_world d = None"
  "trace ex_world = []"
  by (simp_all add: ex_defs)

lemma ex_collaborators [simp]:
  "client_load_dataset (cached_foundry_client (ex_online n)) r b c =
     (DataFrame 1, c(ex_identity n \<mapsto> DataFrame 1))"
  "client_load_dataset (cached_foundry_client (ex_forced n)) r b c =
     (DataFrame 1, c(ex_identity n \<mapsto> DataFrame 1))"
  "rest_query_foundry_sql (foundry_rest_client (ex_online n)) q b rt = DataFrame 2"
  by (simp_all add: ex_defs)

lemma str_int_5000: "str_int 5000 = ''5000''"
  by code_simp

lemma ex_sample_query:
  "sample_query (ex_online n) ''/data/iris'' = ''SELECT * FROM `/data/iris` LIMIT 5000''"
  by (simp add: sample_query_def Let_def str_int_5000)

theorem C10_witness:
  "last_transaction (ex_identity 524288000) = Some (ex_transaction 524288000)
   \<and> size_in_mega_bytes (ex_online 524288000) (ex_identity 524288000) (ex_transaction 524288000)
       = transforms_sql_dataset_size_threshold (config (ex_online 524288000))
   \<and> \<not> transforms_force_full_dataset_download (config (ex_online 524288000))
   \<and> list_ex is_sampled_query
       (new_events ex_world
          (snd (retrieve_from_foundry_and_cache (ex_online 524288000) (ex_identity 524288000)
                  ''master'' ex_world)))
   \<and> \<not> list_ex is_full_download
       (new_events ex_world
          (snd (retrieve_from_foundry_and_cache (ex_online 524288000) (ex_identity 524288000)
                  ''master'' ex_world)))"
proof -
  have h: "last_transaction (ex_identity 524288000) = Some (ex_transaction 524288000)"
    by simp
  show ?thesis
    using C10_full_download_iff_forced_or_below_threshold
            [OF h, where ctx = "ex_online 524288000" and br = "''master''" and w = ex_world]
    by simp
qed

subsection \<open>\<^verbatim>\<open>dataframe()\<close> on an online Input\<close>



lemma dataframe_uncached_full:
  assumes "is_online ctx" and "self_is_spark_df_retrievable self" and "self_spark_df self = None"
    and "cache w (self_dataset_identity self) = None"
    and "last_transaction (self_dataset_identity self) = Some lt"
    and "transforms_force_full_dataset_download (config ctx)
         \<or> size_in_mega_bytes ctx (self_dataset_identity self) lt
             < transforms_sql_dataset_size_threshold (config ctx)"
  shows "fst (dataframe ctx self w) =
           Inr (Some (fst (client_load_dataset (cached_foundry_client ctx)
                             (dataset_rid (self_dataset_identity self)) (self_branch self) (cache w))))"
    and "cache (snd (snd (dataframe ctx self w))) =
           snd (client_load_dataset (cached_foundry_client ctx)
                  (dataset_rid (self_dataset_identity self)) (self_branch self) (cache w))"
    and "new_events w (snd (snd (dataframe ctx self w))) =
           Cache_keys # size_events ctx (self_dataset_identity self) lt (self_branch self) @
           [Client_load_dataset (dataset_rid (self_dataset_identity self)) (self_branch self)]"
proof -
  note u = retrieve_spark_df_uncached
             [OF assms(4), where ctx = ctx and br = "self_branch self"]
  note f = retrieve_full
             [OF assms(5) assms(6), where br = "self_branch self" and w = "emit Cache_keys w"]
  note d = dataframe_online_first [OF assms(1-3), where w = w]
  show "fst (dataframe ctx self w) =
           Inr (Some (fst (client_load_dataset (cached_foundry_client ctx)
                             (dataset_rid (self_dataset_identity self)) (self_branch self) (cache w))))"
    using d(1) u f(1) by simp
  show "cache (snd (snd (dataframe ctx self w))) =
           snd (client_load_dataset (cached_foundry_client ctx)
                  (dataset_rid (self_dataset_identity self)) (self_branch self) (cache w))"
    using d(2) u f(2) by simp
  show "new_events w (snd (snd (dataframe ctx self w))) =
           Cache_keys # size_events ctx (self_dataset_identity self) lt (self_branch self) @
           [Client_load_dataset (dataset_rid (self_dataset_identity self)) (self_branch self)]"
    using d(2) u f(3) by (simp add: new_events_def)
qed

lemma dataframe_uncached_sampled:
  assumes "is_online ctx" and "self_is_spark_df_retrievable self" and "self_spark_df self = None"
    and "cache w (self_dataset_identity self) = None"
    and "last_transaction (self_dataset_identity self) = Some lt"
    and "\<not> transforms_force_full_dataset_download (config ctx)"
    and "\<not> size_in_mega_bytes ctx (self_dataset_identity self) lt
             < transforms_sql_dataset_size_threshold (config ctx)"
  shows "fst (dataframe ctx self w) =
           Inr (Some (rest_query_foundry_sql (foundry_rest_client ctx)
                        (sample_query ctx (dataset_path (self_dataset_identity self)))
                        (self_branch self) SPARK))"
    and "cache (snd (snd (dataframe ctx self w))) =
           (cache w)(self_dataset_identity self \<mapsto>
              rest_query_foundry_sql (foundry_rest_client ctx)
                (sample_query ctx (dataset_path (self_dataset_identity self)))
                (self_branch self) SPARK)"
    and "new_events w (snd (snd (dataframe ctx self w))) =
           Cache_keys # size_events ctx (self_dataset_identity self) lt (self_branch self) @
           [Warn_subset (transforms_sql_sample_row_limit (config ctx))
              (last (split CHR ''/'' (dataset_path (self_dataset_identity self))))
              (dataset_rid (self_dataset_identity self))
              (round_ndigits2 (size_in_mega_bytes ctx (self_dataset_identity self) lt))
              (transforms_sql_dataset_size_threshold (config ctx)),
            Debug_executing_query (sample_query ctx (dataset_path (self_dataset_identity self)))
              (self_branch self),
            Rest_query_foundry_sql (sample_query ctx (dataset_path (self_dataset_identity self)))
              (self_branch self) SPARK,
            Cache_setitem (self_dataset_identity self)
              (rest_query_foundry_sql (foundry_rest_client ctx)
                 (sample_query ctx (dataset_path (self_dataset_identity self)))
                 (self_branch self) SPARK)]"
proof -
  note u = retrieve_spark_df_uncached
             [OF assms(4), where ctx = ctx and br = "self_branch self"]
  note s = retrieve_sampled
             [OF assms(5) assms(6) assms(7), where br = "self_branch self"
               and w = "emit Cache_keys w"]
  note d = dataframe_online_first [OF assms(1-3), where w = w]
  show "fst (dataframe ctx self w) =
           Inr (Some (rest_query_foundry_sql (foundry_rest_client ctx)
                        (sample_query ctx (dataset_path (self_dataset_identity self)))
                        (self_branch self) SPARK))"
    using d(1) u s(1) by simp
  show "cache (snd (snd (dataframe ctx self w))) =
           (cache w)(self_dataset_identity self \<mapsto>
              rest_query_foundry_sql (foundry_rest_client ctx)
                (sample_query ctx (dataset_path (self_dataset_identity self)))
                (self_branch self) SPARK)"
    using d(2) u s(2) by simp
  show "new_events w (snd (snd (dataframe ctx self w))) =
           Cache_keys # size_events ctx (self_dataset_identity self) lt (self_branch self) @
           [Warn_subset (transforms_sql_sample_row_limit (config ctx))
              (last (split CHR ''/'' (dataset_path (self_dataset_identity self))))
              (dataset_rid (self_dataset_identity self))
              (round_ndigits2 (size_in_mega_bytes ctx (self_dataset_identity self) lt))
              (transforms_sql_dataset_size_threshold (config ctx)),
            Debug_executing_query (sample_query ctx (dataset_path (self_dataset_identity self)))
              (self_branch self),
            Rest_query_foundry_sql (sample_query ctx (dataset_path (self_dataset_identity self)))
              (self_branch self) SPARK,
            Cache_setitem (self_dataset_identity self)
              (rest_query_foundry_sql (foundry_rest_client ctx)
                 (sample_query ctx (dataset_path (self_dataset_identity self)))
                 (self_branch self) SPARK)]"
    using d(2) u s(3) by (simp add: new_events_def)
qed

text \<open>
  C1 as stated fails: with the force flag set, a dataset of 1000 megabytes, above the
  threshold of 500, is downloaded in full, with no sampled query and no warning.
\<close>

theorem C1_counterexample_forced_full_download:
  "is_online (ex_forced 1048576000)
   \<and> cache ex_world (self_dataset_identity (ex_input True 1048576000)) = None
   \<and> transforms_sql_dataset_size_threshold (config (ex_forced 1048576000))
       < size_in_mega_bytes (ex_forced 1048576000) (ex_identity 1048576000)
           (ex_transaction 1048576000)
   \<and> fst (dataframe (ex_forced 1048576000) (ex_input True 1048576000) ex_world)
       = Inr (Some (DataFrame 1))
   \<and> \<not> list_ex is_sampled_query
         (new_events ex_world
            (snd (snd (dataframe (ex_forced 1048576000) (ex_input True 1048576000) ex_world))))
   \<and> \<not> list_ex is_warning
         (new_events ex_world
            (snd (snd (dataframe (ex_forced 1048576000) (ex_input True 1048576000) ex_world))))"
proof -
  have c: "transforms_force_full_dataset_download (config (ex_forced 1048576000))
      \<or> size_in_mega_bytes (ex_forced 1048576000)
            (self_dataset_identity (ex_input True 1048576000)) (ex_transaction 1048576000)
          < transforms_sql_dataset_size_threshold (config (ex_forced 1048576000))"
    by simp
  note f = dataframe_uncached_full
             [where ctx = "ex_forced 1048576000" and self = "ex_input True 1048576000"
               and w = ex_world and lt = "ex_transaction 1048576000", OF _ _ _ _ _ c]
  show ?thesis
    by (simp add: f size_events_plain)
qed

text \<open>
  C1, amended: when an online Input retrieves a dataframe that is not yet in the cache, a
  dataset whose size in megabytes is below the threshold is downloaded in full (no sampled
  query, no warning), and a dataset whose size is above the threshold is, unless the
  force-full-download flag is set, fetched by the sampled query with a warning (and not
  downloaded in full).
\<close>

theorem C1_threshold_decides_unless_forced:
  fixes ctx :: foundry_context and self :: Input and w :: world and lt :: SecuredTransaction
  defines "di \<equiv> self_dataset_identity self"
    and "evs \<equiv> new_events w (snd (snd (dataframe ctx self w)))"
    and "size_mb \<equiv> size_in_mega_bytes ctx (self_dataset_identity self) lt"
    and "threshold \<equiv> transforms_sql_dataset_size_threshold (config ctx)"
  assumes online: "is_online ctx"
    and retr: "self_is_spark_df_retrievable self"
    and none: "self_spark_df self = None"
    and uncached: "cache w (self_dataset_identity self) = None"
    and lt: "last_transaction (self_dataset_identity self) = Some lt"
  shows "(size_mb < threshold \<longrightarrow>
            fst (dataframe ctx self w) =
              Inr (Some (fst (client_load_dataset (cached_foundry_client ctx) (dataset_rid di)
                                (self_branch self) (cache w))))
            \<and> list_ex is_full_download evs
            \<and> \<not> list_ex is_sampled_query evs
            \<and> \<not> list_ex is_warning evs)
       \<and> (threshold < size_mb \<and> \<not> transforms_force_full_dataset_download (config ctx) \<longrightarrow>
            fst (dataframe ctx self w) =
              Inr (Some (rest_query_foundry_sql (foundry_rest_client ctx)
                           (sample_query ctx (dataset_path di)) (self_branch self) SPARK))
            \<and> list_ex is_sampled_query evs
            \<and> list_ex is_warning evs
            \<and> \<not> list_ex is_full_download evs)"
proof -
  have below: "fst (dataframe ctx self w) =
              Inr (Some (fst (client_load_dataset (cached_foundry_client ctx) (dataset_rid di)
                                (self_branch self) (cache w))))
            \<and> list_ex is_full_download evs
            \<and> \<not> list_ex is_sampled_query evs
            \<and> \<not> list_ex is_warning evs"
    if "size_mb < threshold"
  proof -
    from that have c: "transforms_force_full_dataset_download (config ctx)
         \<or> size_in_mega_bytes ctx (self_dataset_identity self) lt
             < transforms_sql_dataset_size_threshold (config ctx)"
      by (simp add: size_mb_def threshold_def)
    note f = dataframe_uncached_full [OF online retr none uncached lt c]
    show ?thesis
      by (simp add: f evs_def di_def size_events_plain)
  qed
  have above: "fst (dataframe ctx self w) =
              Inr (Some (rest_query_foundry_sql (foundry_rest_client ctx)
                           (sample_query ctx (dataset_path di)) (self_branch self) SPARK))
            \<and> list_ex is_sampled_query evs
            \<and> list_ex is_warning evs
            \<and> \<not> list_ex is_full_download evs"
    if "threshold < size_mb" and nf: "\<not> transforms_force_full_dataset_download (config ctx)"
  proof -
    from that have c: "\<not> size_in_mega_bytes ctx (self_dataset_identity self) lt
             < transforms_sql_dataset_size_threshold (config ctx)"
      by (simp add: size_mb_def threshold_def)
    note s = dataframe_uncached_sampled [OF online retr none uncached lt nf c]
    show ?thesis
      by (simp add: s evs_def di_def size_events_plain)
  qed
  from below above show ?thesis by blast
qed

theorem C1_witness:
  "is_online (ex_online 1024)
   \<and> self_is_spark_df_retrievable (ex_input True 1024)
   \<and> self_spark_df (ex_input True 1024) = None
   \<and> cache ex_world (self_dataset_identity (ex_input True 1024)) = None
   \<and> last_transaction (self_dataset_identity (ex_input True 1024)) = Some (ex_transaction 1024)
   \<and> size_in_mega_bytes (ex_online 1024) (self_dataset_identity (ex_input True 1024))
         (ex_transaction 1024)
       < transforms_sql_dataset_size_threshold (config (ex_online 1024))
   \<and> fst (dataframe (ex_online 1024) (ex_input True 1024) ex_world) = Inr (Some (DataFrame 1))
   \<and> list_ex is_full_download
       (new_events ex_world (snd (snd (dataframe (ex_online 1024) (ex_input True 1024) ex_world))))
   \<and> transforms_sql_dataset_size_threshold (config (ex_online 1048576000))
       < size_in_mega_bytes (ex_online 1048576000)
           (self_dataset_identity (ex_input True 1048576000)) (ex_transaction 1048576000)
   \<and> \<not> transforms_force_full_dataset_download (config (ex_online 1048576000))
   \<and> fst (dataframe (ex_online 1048576000) (ex_input True 1048576000) ex_world)
       = Inr (Some (DataFrame 2))
   \<and> list_ex is_warning
       (new_events ex_world
          (snd (snd (dataframe (ex_online 1048576000) (ex_input True 1048576000) ex_world))))"
proof -
  have a: "is_online (ex_online n)" "self_is_spark_df_retrievable (ex_input True n)"
    "self_spark_df (ex_input True n) = None"
    "cache ex_world (self_dataset_identity (ex_input True n)) = None"
    "last_transaction (self_dataset_identity (ex_input True n)) = Some (ex_transaction n)" for n
    by simp_all
  note small = C1_threshold_decides_unless_forced [OF a, of 1024]
  note big = C1_threshold_decides_unless_forced [OF a, of 1048576000]
  show ?thesis
    using small big by simp
qed





text \<open>
  C6: the sampled retrieval submits exactly one REST call, the SQL query
  \<^verbatim>\<open>SELECT * FROM `<dataset_path>`\<close>, then \<^verbatim>\<open> ORDER BY RAND()\<close> exactly when the
  random-sampling flag is set, then \<^verbatim>\<open> LIMIT <row limit>\<close>, with the branch it is given
  and the Spark return type; \<^verbatim>\<open>dataframe()\<close> gives it the Input's effective branch.
\<close>

theorem C6_sampled_query_text_and_branch:
  fixes ctx :: foundry_context and p :: string and br :: string and w :: world
  defines "q \<equiv> sample_query ctx p"
    and "select_txt \<equiv> ''SELECT * FROM `'' @ p @ ''`''"
    and "limit_txt \<equiv> '' LIMIT '' @ str_int (transforms_sql_sample_row_limit (config ctx))"
    and "random \<equiv> transforms_sql_sample_select_random (config ctx)"
  shows "q = select_txt @ (if random then '' ORDER BY RAND()'' else []) @ limit_txt
       \<and> (q = select_txt @ '' ORDER BY RAND()'' @ limit_txt \<longleftrightarrow> random)
       \<and> (q = select_txt @ limit_txt \<longleftrightarrow> \<not> random)
       \<and> fst (read_spark_df_with_sql_query ctx p br w) =
           rest_query_foundry_sql (foundry_rest_client ctx) q br SPARK
       \<and> filter is_rest_call (new_events w (snd (read_spark_df_with_sql_query ctx p br w))) =
           [Rest_query_foundry_sql q br SPARK]
       \<and> (\<forall>self w0 lt.
            is_online ctx \<and> self_is_spark_df_retrievable self \<and> self_spark_df self = None
            \<and> cache w0 (self_dataset_identity self) = None
            \<and> last_transaction (self_dataset_identity self) = Some lt
            \<and> \<not> transforms_force_full_dataset_download (config ctx)
            \<and> \<not> size_in_mega_bytes ctx (self_dataset_identity self) lt
                  < transforms_sql_dataset_size_threshold (config ctx)
            \<and> dataset_path (self_dataset_identity self) = p
            \<longrightarrow>
            filter is_sampled_query (new_events w0 (snd (snd (dataframe ctx self w0)))) =
              [Rest_query_foundry_sql q (self_branch self) SPARK])"
proof -
  have shape: "q = select_txt @ (if random then '' ORDER BY RAND()'' else []) @ limit_txt"
    by (simp add: q_def select_txt_def limit_txt_def random_def sample_query_def Let_def)
  have order: "q = select_txt @ '' ORDER BY RAND()'' @ limit_txt \<longleftrightarrow> random"
    by (simp add: shape)
  have plain: "q = select_txt @ limit_txt \<longleftrightarrow> \<not> random"
    by (simp add: shape)
  have call: "fst (read_spark_df_with_sql_query ctx p br w) =
           rest_query_foundry_sql (foundry_rest_client ctx) q br SPARK"
    by (simp add: q_def read_spark_df_with_sql_query_result)
  have once: "filter is_rest_call (new_events w (snd (read_spark_df_with_sql_query ctx p br w))) =
           [Rest_query_foundry_sql q br SPARK]"
    by (simp add: q_def new_events_def read_spark_df_with_sql_query_result)
  have branch: "filter is_sampled_query (new_events w0 (snd (snd (dataframe ctx self w0)))) =
              [Rest_query_foundry_sql q (self_branch self) SPARK]"
    if "is_online ctx" and "self_is_spark_df_retrievable self" and "self_spark_df self = None"
      and "cache w0 (self_dataset_identity self) = None"
      and "last_transaction (self_dataset_identity self) = Some lt"
      and "\<not> transforms_force_full_dataset_download (config ctx)"
      and "\<not> size_in_mega_bytes ctx (self_dataset_identity self) lt
                  < transforms_sql_dataset_size_threshold (config ctx)"
      and "dataset_path (self_dataset_identity self) = p"
    for self w0 lt
    using dataframe_uncached_sampled(3) [OF that(1-7)] that(8)
    by (simp add: q_def size_events_plain)
  from shape order plain call once branch show ?thesis by blast
qed

theorem C6_witness:
  "is_online (ex_online 1048576000)
   \<and> self_is_spark_df_retrievable (ex_input True 1048576000)
   \<and> self_spark_df (ex_input True 1048576000) = None
   \<and> cache ex_world (self_dataset_identity (ex_input True 1048576000)) = None
   \<and> last_transaction (self_dataset_identity (ex_input True 1048576000))
       = Some (ex_transaction 1048576000)
   \<and> \<not> transforms_force_full_dataset_download (config (ex_online 1048576000))
   \<and> \<not> size_in_mega_bytes (ex_online 1048576000)
           (self_dataset_identity (ex_input True 1048576000)) (ex_transaction 1048576000)
         < transforms_sql_dataset_size_threshold (config (ex_online 1048576000))
   \<and> dataset_path (self_dataset_identity (ex_input True 1048576000)) = ''/data/iris''
   \<and> filter is_sampled_query
       (new_events ex_world
          (snd (snd (dataframe (ex_online 1048576000) (ex_input True 1048576000) ex_world))))
       = [Rest_query_foundry_sql ''SELECT * FROM `/data/iris` LIMIT 5000'' ''master'' SPARK]"
proof -
  note t = C6_sampled_query_text_and_branch
             [where ctx = "ex_online 1048576000" and p = "''/data/iris''"]
  have h: "is_online (ex_online 1048576000)
   \<and> self_is_spark_df_retrievable (ex_input True 1048576000)
   \<and> self_spark_df (ex_input True 1048576000) = None
   \<and> cache ex_world (self_dataset_identity (ex_input True 1048576000)) = None
   \<and> last_transaction (self_dataset_identity (ex_input True 1048576000))
       = Some (ex_transaction 1048576000)
   \<and> \<not> transforms_force_full_dataset_download (config (ex_online 1048576000))
   \<and> \<not> size_in_mega_bytes (ex_online 1048576000)
           (self_dataset_identity (ex_input True 1048576000)) (ex_transaction 1048576000)
         < transforms_sql_dataset_size_threshold (config (ex_online 1048576000))
   \<and> dataset_path (self_dataset_identity (ex_input True 1048576000)) = ''/data/iris''"
    by simp
  from t h have "filter is_sampled_query
       (new_events ex_world
          (snd (snd (dataframe (ex_online 1048576000) (ex_input True 1048576000) ex_world))))
       = [Rest_query_foundry_sql (sample_query (ex_online 1048576000) ''/data/iris'')
            (self_branch (ex_input True 1048576000)) SPARK]"
    by blast
  with h show ?thesis
    by (simp add: ex_sample_query)
qed

subsection \<open>The constructor\<close>

lemma constructor_start_world [simp]:
  "trace (constructor_start ctx c b w) =
     trace w @ Debug_instantiated c # snd (resolve_branch ctx c b)"
  "cache (constructor_start ctx c b w) = cache w"
  by (simp_all add: constructor_start_def Let_def)

lemma requested_branch_Some [simp]: "requested_branch ctx c (Some x) = x"
  by (simp add: requested_branch_def resolve_branch_def)

lemma offline_result:
  "fst (offline ctx a br w) =
     Inr (cache_dataset_has_schema (cached_foundry_client ctx)
            (cache_get_dataset_identity_not_branch_aware (cached_foundry_client ctx) a),
          cache_get_dataset_identity_not_branch_aware (cached_foundry_client ctx) a, br)"
  "cache (snd (offline ctx a br w)) = cache w"
  "trace (snd (offline ctx a br w)) =
     trace w @ [Cache_get_dataset_identity_not_branch_aware a,
                Cache_dataset_has_schema
                  (cache_get_dataset_identity_not_branch_aware (cached_foundry_client ctx) a)]"
  by (simp_all add: offline_def Let_def)

lemma online_cache: "cache (snd (online ctx a br w)) = cache w"
  by (simp add: online_def dataset_has_schema_def Let_def case_prod_beta split: sum.splits)

lemma online_extends:
  "trace (snd (online ctx a br w)) = trace w @ new_events w (snd (online ctx a br w))"
  by (simp add: new_events_def online_def dataset_has_schema_def Let_def case_prod_beta
        split: sum.splits)

lemma online_no_transactions:
  assumes "rest_get_dataset_identity (foundry_rest_client ctx) a br = Inr di
         \<or> (rest_get_dataset_identity (foundry_rest_client ctx) a br = Inl BranchNotFoundError
            \<and> rest_get_dataset_identity (foundry_rest_client ctx) a ''master'' = Inr di)"
    and "last_transaction_rid di = None"
  shows "fst (online ctx a br w) = Inl (DatasetHasNoTransactionsError a)"
    and "\<not> list_ex is_schema_lookup (new_events w (snd (online ctx a br w)))"
    and "\<not> list_ex is_data_retrieval (new_events w (snd (online ctx a br w)))"
  using assms
  by (auto simp add: online_def Let_def case_prod_beta new_events_def)

lemma online_fallback:
  assumes "rest_get_dataset_identity (foundry_rest_client ctx) a br = Inl BranchNotFoundError"
  shows "filter is_get_dataset_identity (new_events w (snd (online ctx a br w))) =
           [Rest_get_dataset_identity a br, Rest_get_dataset_identity a ''master'']"
    and "fst (online ctx a br w) = Inr (r, d, b') \<Longrightarrow>
           b' = ''master''
           \<and> rest_get_dataset_identity (foundry_rest_client ctx) a ''master'' = Inr d"
  by (auto simp add: assms online_def dataset_has_schema_def Let_def case_prod_beta
        new_events_def split: sum.splits if_splits)

lemma online_no_schema:
  assumes "rest_get_dataset_identity (foundry_rest_client ctx) a br = Inr di \<and> br' = br
         \<or> rest_get_dataset_identity (foundry_rest_client ctx) a br = Inl BranchNotFoundError
           \<and> rest_get_dataset_identity (foundry_rest_client ctx) a ''master'' = Inr di
           \<and> br' = ''master''"
    and "last_transaction_rid di \<noteq> None"
    and "rest_get_dataset_schema (foundry_rest_client ctx) (dataset_rid di)
           (last_transaction_rid di) br' = Inl DatasetHasNoSchemaError"
  shows "fst (online ctx a br w) = Inr (False, di, br')"
    and "filter is_no_schema_log (new_events w (snd (online ctx a br w))) =
           [Debug_no_schema (dataset_rid di) (dataset_path di) br']"
  using assms
  by (auto simp add: online_def dataset_has_schema_def Let_def case_prod_beta new_events_def)

lemma Input_init_online:
  assumes "is_online ctx"
  shows "fst (Input_init ctx c a b w) =
           (case fst (online ctx a (requested_branch ctx c b) (constructor_start ctx c b w)) of
              Inl e \<Rightarrow> Inl e
            | Inr t \<Rightarrow> Inr \<lparr>self_is_spark_df_retrievable = fst t,
                             self_dataset_identity = fst (snd t),
                             self_branch = snd (snd t),
                             self_spark_df = None\<rparr>)"
    and "snd (Input_init ctx c a b w) =
           snd (online ctx a (requested_branch ctx c b) (constructor_start ctx c b w))"
  by (simp_all add: assms Input_init_def Let_def case_prod_beta split: sum.splits)

lemma Input_init_online_events:
  assumes "is_online ctx"
  shows "new_events w (snd (Input_init ctx c a b w)) =
           Debug_instantiated c # snd (resolve_branch ctx c b) @
           new_events (constructor_start ctx c b w)
             (snd (online ctx a (requested_branch ctx c b) (constructor_start ctx c b w)))"
proof (rule new_events_append)
  have "trace (snd (Input_init ctx c a b w)) =
          trace (constructor_start ctx c b w) @
          new_events (constructor_start ctx c b w)
            (snd (online ctx a (requested_branch ctx c b) (constructor_start ctx c b w)))"
    unfolding Input_init_online(2) [OF assms] by (rule online_extends)
  then show "trace (snd (Input_init ctx c a b w)) =
          trace w @ Debug_instantiated c # snd (resolve_branch ctx c b) @
          new_events (constructor_start ctx c b w)
            (snd (online ctx a (requested_branch ctx c b) (constructor_start ctx c b w)))"
    by simp
qed

lemma Input_init_offline:
  assumes "\<not> is_online ctx"
  shows "fst (Input_init ctx c a b w) =
           Inr \<lparr>self_is_spark_df_retrievable =
                   cache_dataset_has_schema (cached_foundry_client ctx)
                     (cache_get_dataset_identity_not_branch_aware (cached_foundry_client ctx) a),
                self_dataset_identity =
                   cache_get_dataset_identity_not_branch_aware (cached_foundry_client ctx) a,
                self_branch = requested_branch ctx c b,
                self_spark_df = None\<rparr>"
    and "cache (snd (Input_init ctx c a b w)) = cache w"
    and "new_events w (snd (Input_init ctx c a b w)) =
           Debug_instantiated c # snd (resolve_branch ctx c b) @
           [Cache_get_dataset_identity_not_branch_aware a,
            Cache_dataset_has_schema
              (cache_get_dataset_identity_not_branch_aware (cached_foundry_client ctx) a)]"
  by (simp_all add: assms Input_init_def Let_def case_prod_beta offline_result new_events_def
        split: sum.splits)

text \<open>An Input fresh from the constructor holds no dataframe.\<close>

lemma Input_init_holds_no_dataframe:
  assumes "fst (Input_init ctx c a b w) = Inr self"
  shows "self_spark_df self = None"
proof (cases "is_online ctx")
  case True
  with assms show ?thesis
    by (auto simp add: Input_init_online(1) split: sum.splits)
next
  case False
  with assms show ?thesis
    by (auto simp add: Input_init_offline(1))
qed

lemma ex_rest_fields [simp]:
  "rest_get_dataset_identity (foundry_rest_client (ex_online n)) a b =
     (if a = ''/data/empty'' then Inr ex_empty_identity
      else if b = ''master'' then Inr (ex_identity n) else Inl BranchNotFoundError)"
  "rest_get_dataset_identity (foundry_rest_client (ex_no_schema n)) a b =
     (if a = ''/data/empty'' then Inr ex_empty_identity
      else if b = ''master'' then Inr (ex_identity n) else Inl BranchNotFoundError)"
  "rest_get_dataset_schema (foundry_rest_client (ex_online n)) r t b = Inr ()"
  "rest_get_dataset_schema (foundry_rest_client (ex_no_schema n)) r t b = Inl DatasetHasNoSchemaError"
  "cache_get_dataset_identity_not_branch_aware (cached_foundry_client (ex_offline d s)) a = d"
  "cache_dataset_has_schema (cached_foundry_client (ex_offline d s)) x = s"
  "transforms_freeze_cache (config (ex_offline d s))"
  "last_transaction_rid (ex_identity n) = Some ''ri.foundry.main.transaction.1''"
  "last_transaction_rid ex_empty_identity = None"
  by (simp_all add: ex_defs)

lemma ex_get_branch:
  "get_branch ex_fs (Path ''/repo/transform.py'') = (''feature'', [])"
  by code_simp

text \<open>
  C2: if the first online resolution raises the branch-not-found error, the constructor
  calls the resolution a second and last time, with the branch \<^verbatim>\<open>"master"\<close>; when it then
  succeeds, the Input records \<^verbatim>\<open>"master"\<close> as its branch, and the identity the retry
  returned.
\<close>

theorem C2_branch_not_found_retries_once_on_master:
  fixes ctx :: foundry_context and c :: string and a :: string and b :: "string option"
    and w :: world
  assumes online: "is_online ctx"
    and not_found: "rest_get_dataset_identity (foundry_rest_client ctx) a
                      (requested_branch ctx c b) = Inl BranchNotFoundError"
  shows "filter is_get_dataset_identity (new_events w (snd (Input_init ctx c a b w))) =
           [Rest_get_dataset_identity a (requested_branch ctx c b),
            Rest_get_dataset_identity a ''master'']
       \<and> (\<forall>self. fst (Input_init ctx c a b w) = Inr self \<longrightarrow>
            self_branch self = ''master''
            \<and> rest_get_dataset_identity (foundry_rest_client ctx) a ''master''
                = Inr (self_dataset_identity self))"
proof -
  let ?o = "online ctx a (requested_branch ctx c b) (constructor_start ctx c b w)"
  have calls: "filter is_get_dataset_identity (new_events w (snd (Input_init ctx c a b w))) =
           [Rest_get_dataset_identity a (requested_branch ctx c b),
            Rest_get_dataset_identity a ''master'']"
    by (simp add: Input_init_online_events [OF online] resolve_branch_filter
          online_fallback(1) [OF not_found])
  have success: "self_branch self = ''master''
            \<and> rest_get_dataset_identity (foundry_rest_client ctx) a ''master''
                = Inr (self_dataset_identity self)"
    if s: "fst (Input_init ctx c a b w) = Inr self" for self
  proof (cases "fst ?o")
    case (Inl e)
    with s show ?thesis
      by (simp add: Input_init_online(1) [OF online])
  next
    case (Inr t)
    then have t: "fst ?o = Inr (fst t, fst (snd t), snd (snd t))"
      by simp
    from s Inr have self: "self_branch self = snd (snd t)"
      "self_dataset_identity self = fst (snd t)"
      by (auto simp add: Input_init_online(1) [OF online])
    from online_fallback(2) [OF not_found t] self show ?thesis
      by simp
  qed
  from calls success show ?thesis by blast
qed

theorem C2_witness:
  "is_online (ex_online 1024)
   \<and> rest_get_dataset_identity (foundry_rest_client (ex_online 1024)) ''/data/iris''
       (requested_branch (ex_online 1024) ''/repo/transform.py'' (Some ''feature''))
       = Inl BranchNotFoundError
   \<and> filter is_get_dataset_identity
       (new_events ex_world
          (snd (Input_init (ex_online 1024) ''/repo/transform.py'' ''/data/iris''
                  (Some ''feature'') ex_world)))
       = [Rest_get_dataset_identity ''/data/iris'' ''feature'',
          Rest_get_dataset_identity ''/data/iris'' ''master'']
   \<and> fst (Input_init (ex_online 1024) ''/repo/transform.py'' ''/data/iris''
            (Some ''feature'') ex_world)
       = Inr \<lparr>self_is_spark_df_retrievable = True,
              self_dataset_identity = ex_identity 1024,
              self_branch = ''master'',
              self_spark_df = None\<rparr>"
proof -
  have h: "is_online (ex_online 1024)"
    "rest_get_dataset_identity (foundry_rest_client (ex_online 1024)) ''/data/iris''
       (requested_branch (ex_online 1024) ''/repo/transform.py'' (Some ''feature''))
       = Inl BranchNotFoundError"
    by simp_all
  have r: "fst (Input_init (ex_online 1024) ''/repo/transform.py'' ''/data/iris''
            (Some ''feature'') ex_world)
       = Inr \<lparr>self_is_spark_df_retrievable = True,
              self_dataset_identity = ex_identity 1024,
              self_branch = ''master'',
              self_spark_df = None\<rparr>"
    by (simp add: Input_init_online(1) online_def dataset_has_schema_def Let_def)
  from C2_branch_not_found_retries_once_on_master [OF h, where w = ex_world] h r
  show ?thesis by simp
qed

text \<open>
  C3 as stated fails offline: with the cache frozen the constructor makes no transaction
  check, and an identity with no last transaction gives an Input, not an error.
\<close>

theorem C3_counterexample_offline_no_check:
  "\<not> is_online (ex_offline ex_empty_identity True)
   \<and> cache_get_dataset_identity_not_branch_aware
       (cached_foundry_client (ex_offline ex_empty_identity True)) ''/data/empty''
       = ex_empty_identity
   \<and> last_transaction_rid ex_empty_identity = None
   \<and> fst (Input_init (ex_offline ex_empty_identity True) ''/repo/transform.py'' ''/data/empty''
            (Some ''master'') ex_world)
       = Inr \<lparr>self_is_spark_df_retrievable = True,
              self_dataset_identity = ex_empty_identity,
              self_branch = ''master'',
              self_spark_df = None\<rparr>"
  by (simp add: Input_init_offline(1))

text \<open>
  C3, amended: when the Input is online and the resolved dataset identity (of the first
  resolution, or of the retry on master) has no last transaction, constructing the Input
  raises the dataset-has-no-transactions error at once: no schema lookup and no data
  retrieval happens, and the cache is left as it was.
\<close>

theorem C3_online_no_transactions_raises_at_once:
  fixes ctx :: foundry_context and c :: string and a :: string and b :: "string option"
    and w :: world and di :: DatasetIdentity
  assumes online: "is_online ctx"
    and resolved:
      "rest_get_dataset_identity (foundry_rest_client ctx) a (requested_branch ctx c b) = Inr di
       \<or> (rest_get_dataset_identity (foundry_rest_client ctx) a (requested_branch ctx c b)
            = Inl BranchNotFoundError
          \<and> rest_get_dataset_identity (foundry_rest_client ctx) a ''master'' = Inr di)"
    and no_transaction: "last_transaction_rid di = None"
  shows "fst (Input_init ctx c a b w) = Inl (DatasetHasNoTransactionsError a)
       \<and> \<not> list_ex is_schema_lookup (new_events w (snd (Input_init ctx c a b w)))
       \<and> \<not> list_ex is_data_retrieval (new_events w (snd (Input_init ctx c a b w)))
       \<and> cache (snd (Input_init ctx c a b w)) = cache w"
proof -
  note n = online_no_transactions
             [OF resolved no_transaction, where w = "constructor_start ctx c b w"]
  have kept: "cache (snd (Input_init ctx c a b w)) = cache w"
    by (simp add: Input_init_online(2) [OF online] online_cache)
  show ?thesis
    by (simp add: Input_init_online(1) [OF online] Input_init_online_events [OF online] n kept
          resolve_branch_list_ex)
qed

theorem C3_witness:
  "is_online (ex_online 1024)
   \<and> rest_get_dataset_identity (foundry_rest_client (ex_online 1024)) ''/data/empty''
       (requested_branch (ex_online 1024) ''/repo/transform.py'' (Some ''feature''))
       = Inr ex_empty_identity
   \<and> last_transaction_rid ex_empty_identity = None
   \<and> fst (Input_init (ex_online 1024) ''/repo/transform.py'' ''/data/empty''
            (Some ''feature'') ex_world)
       = Inl (DatasetHasNoTransactionsError ''/data/empty'')"
proof -
  have h1: "is_online (ex_online 1024)"
    by simp
  have h2: "rest_get_dataset_identity (foundry_rest_client (ex_online 1024)) ''/data/empty''
       (requested_branch (ex_online 1024) ''/repo/transform.py'' (Some ''feature''))
       = Inr ex_empty_identity
     \<or> (rest_get_dataset_identity (foundry_rest_client (ex_online 1024)) ''/data/empty''
       (requested_branch (ex_online 1024) ''/repo/transform.py'' (Some ''feature''))
            = Inl BranchNotFoundError
          \<and> rest_get_dataset_identity (foundry_rest_client (ex_online 1024)) ''/data/empty''
              ''master'' = Inr ex_empty_identity)"
    by simp
  have h3: "last_transaction_rid ex_empty_identity = None"
    by simp
  from C3_online_no_transactions_raises_at_once [OF h1 h2 h3, where w = ex_world] h1 h3
  show ?thesis by simp
qed

subsection \<open>File-only Inputs\<close>

lemma run_call_file_only:
  assumes "\<not> self_is_spark_df_retrievable self" and "self_spark_df self = None"
  shows "fst (snd (run_call ctx c self w)) = self"
    and "dataframe_returned_none (fst (run_call ctx c self w))"
  by (cases c;
      simp add: assms dataframe_def get_dataset_identity_def get_local_path_to_dataset_def
        Let_def case_prod_beta)+

lemma run_calls_file_only:
  "\<not> self_is_spark_df_retrievable self \<Longrightarrow> self_spark_df self = None \<Longrightarrow>
     list_all dataframe_returned_none (fst (run_calls cs self w))"
proof (induction cs arbitrary: w)
  case Nil
  show ?case by simp
next
  case (Cons x cs)
  obtain ctx c where x: "x = (ctx, c)" by (cases x)
  from Cons.prems show ?case
    by (simp add: x case_prod_beta run_call_file_only Cons.IH)
qed

text \<open>
  C4 as stated fails in two places.  Offline the constructor records file-only mode with
  no log line about it: its only log line is the one every constructor call writes.
  Online a dataset with no last transaction makes the constructor raise before any schema
  request, also when that request would report that there is no schema.
\<close>

theorem C4_counterexample_no_log_line_offline_raise_online:
  "\<not> is_online (ex_offline (ex_identity 1024) False)
   \<and> \<not> cache_dataset_has_schema (cached_foundry_client (ex_offline (ex_identity 1024) False))
         (ex_identity 1024)
   \<and> fst (Input_init (ex_offline (ex_identity 1024) False) ''/repo/transform.py'' ''/data/iris''
            (Some ''master'') ex_world)
       = Inr \<lparr>self_is_spark_df_retrievable = False,
              self_dataset_identity = ex_identity 1024,
              self_branch = ''master'',
              self_spark_df = None\<rparr>
   \<and> new_events ex_world
       (snd (Input_init (ex_offline (ex_identity 1024) False) ''/repo/transform.py''
               ''/data/iris'' (Some ''master'') ex_world))
       = [Debug_instantiated ''/repo/transform.py'',
          Cache_get_dataset_identity_not_branch_aware ''/data/iris'',
          Cache_dataset_has_schema (ex_identity 1024)]
   \<and> is_online (ex_no_schema 1024)
   \<and> rest_get_dataset_identity (foundry_rest_client (ex_no_schema 1024)) ''/data/empty''
       ''master'' = Inr ex_empty_identity
   \<and> rest_get_dataset_schema (foundry_rest_client (ex_no_schema 1024))
       (dataset_rid ex_empty_identity) (last_transaction_rid ex_empty_identity) ''master''
       = Inl DatasetHasNoSchemaError
   \<and> fst (Input_init (ex_no_schema 1024) ''/repo/transform.py'' ''/data/empty''
            (Some ''master'') ex_world)
       = Inl (DatasetHasNoTransactionsError ''/data/empty'')"
proof -
  have offline_part:
    "fst (Input_init (ex_offline (ex_identity 1024) False) ''/repo/transform.py'' ''/data/iris''
            (Some ''master'') ex_world)
       = Inr \<lparr>self_is_spark_df_retrievable = False,
              self_dataset_identity = ex_identity 1024,
              self_branch = ''master'',
              self_spark_df = None\<rparr>
     \<and> new_events ex_world
       (snd (Input_init (ex_offline (ex_identity 1024) False) ''/repo/transform.py''
               ''/data/iris'' (Some ''master'') ex_world))
       = [Debug_instantiated ''/repo/transform.py'',
          Cache_get_dataset_identity_not_branch_aware ''/data/iris'',
          Cache_dataset_has_schema (ex_identity 1024)]"
    by (simp add: Input_init_offline resolve_branch_def)
  have online_part:
    "fst (Input_init (ex_no_schema 1024) ''/repo/transform.py'' ''/data/empty''
            (Some ''master'') ex_world)
       = Inl (DatasetHasNoTransactionsError ''/data/empty'')"
    by (simp add: Input_init_online(1) online_def Let_def)
  from offline_part online_part show ?thesis
    by simp
qed

text \<open>
  C4, amended: if the resolved dataset has no schema and, when online, has a last
  transaction, the Input constructor does not raise: it records file-only mode (online
  with the log line about it, offline without one), and every subsequent call to
  \<^verbatim>\<open>dataframe()\<close> on that Input returns None.
\<close>

theorem C4_no_schema_file_only:
  fixes ctx :: foundry_context and c :: string and a :: string and b :: "string option"
    and w :: world and di :: DatasetIdentity and br' :: string
  defines "br \<equiv> requested_branch ctx c b"
    and "file_only \<equiv> \<lparr>self_is_spark_df_retrievable = False,
                        self_dataset_identity = di,
                        self_branch = br',
                        self_spark_df = None\<rparr>"
  assumes no_schema:
      "is_online ctx
       \<and> (rest_get_dataset_identity (foundry_rest_client ctx) a br = Inr di \<and> br' = br
          \<or> rest_get_dataset_identity (foundry_rest_client ctx) a br = Inl BranchNotFoundError
            \<and> rest_get_dataset_identity (foundry_rest_client ctx) a ''master'' = Inr di
            \<and> br' = ''master'')
       \<and> last_transaction_rid di \<noteq> None
       \<and> rest_get_dataset_schema (foundry_rest_client ctx) (dataset_rid di)
           (last_transaction_rid di) br' = Inl DatasetHasNoSchemaError
       \<or> \<not> is_online ctx
         \<and> cache_get_dataset_identity_not_branch_aware (cached_foundry_client ctx) a = di
         \<and> br' = br
         \<and> \<not> cache_dataset_has_schema (cached_foundry_client ctx) di"
  shows "fst (Input_init ctx c a b w) = Inr file_only
       \<and> (is_online ctx \<longrightarrow>
            filter is_no_schema_log (new_events w (snd (Input_init ctx c a b w))) =
              [Debug_no_schema (dataset_rid di) (dataset_path di) br'])
       \<and> (\<not> is_online ctx \<longrightarrow>
            filter is_no_schema_log (new_events w (snd (Input_init ctx c a b w))) = [])
       \<and> (\<forall>cs w'. list_all dataframe_returned_none (fst (run_calls cs file_only w')))"
proof -
  have later: "list_all dataframe_returned_none (fst (run_calls cs file_only w'))" for cs w'
    by (rule run_calls_file_only) (simp_all add: file_only_def)
  show ?thesis
  proof (cases "is_online ctx")
    case True
    with no_schema have r:
        "rest_get_dataset_identity (foundry_rest_client ctx) a (requested_branch ctx c b) = Inr di
           \<and> br' = requested_branch ctx c b
         \<or> rest_get_dataset_identity (foundry_rest_client ctx) a (requested_branch ctx c b)
             = Inl BranchNotFoundError
           \<and> rest_get_dataset_identity (foundry_rest_client ctx) a ''master'' = Inr di
           \<and> br' = ''master''"
      and t: "last_transaction_rid di \<noteq> None"
      and s: "rest_get_dataset_schema (foundry_rest_client ctx) (dataset_rid di)
           (last_transaction_rid di) br' = Inl DatasetHasNoSchemaError"
      by (simp_all add: br_def)
    note n = online_no_schema [OF r t s, where w = "constructor_start ctx c b w"]
    have "fst (Input_init ctx c a b w) = Inr file_only"
      by (simp add: Input_init_online(1) [OF True] n(1) file_only_def)
    moreover have "filter is_no_schema_log (new_events w (snd (Input_init ctx c a b w))) =
              [Debug_no_schema (dataset_rid di) (dataset_path di) br']"
      by (simp add: Input_init_online_events [OF True] n(2) resolve_branch_filter)
    ultimately show ?thesis
      using True later by blast
  next
    case False
    with no_schema have d: "cache_get_dataset_identity_not_branch_aware (cached_foundry_client ctx) a = di"
      and b': "br' = requested_branch ctx c b"
      and s: "\<not> cache_dataset_has_schema (cached_foundry_client ctx) di"
      by (simp_all add: br_def)
    have "fst (Input_init ctx c a b w) = Inr file_only"
      by (simp add: Input_init_offline(1) [OF False] d b' s file_only_def)
    moreover have "filter is_no_schema_log (new_events w (snd (Input_init ctx c a b w))) = []"
      by (simp add: Input_init_offline(3) [OF False] resolve_branch_filter)
    ultimately show ?thesis
      using False later by blast
  qed
qed

theorem C4_witness:
  "is_online (ex_no_schema 1024)
   \<and> rest_get_dataset_identity (foundry_rest_client (ex_no_schema 1024)) ''/data/iris''
       (requested_branch (ex_no_schema 1024) ''/repo/transform.py'' (Some ''master''))
       = Inr (ex_identity 1024)
   \<and> last_transaction_rid (ex_identity 1024) \<noteq> None
   \<and> rest_get_dataset_schema (foundry_rest_client (ex_no_schema 1024))
       (dataset_rid (ex_identity 1024)) (last_transaction_rid (ex_identity 1024)) ''master''
       = Inl DatasetHasNoSchemaError
   \<and> fst (Input_init (ex_no_schema 1024) ''/repo/transform.py'' ''/data/iris''
            (Some ''master'') ex_world)
       = Inr (ex_input False 1024)
   \<and> filter is_no_schema_log
       (new_events ex_world
          (snd (Input_init (ex_no_schema 1024) ''/repo/transform.py'' ''/data/iris''
                  (Some ''master'') ex_world)))
       = [Debug_no_schema ''ri.foundry.main.dataset.1'' ''/data/iris'' ''master'']
   \<and> list_all dataframe_returned_none
       (fst (run_calls [(ex_no_schema 1024, Dataframe), (ex_online 1024, Dataframe)]
               (ex_input False 1024) ex_world))
   \<and> \<not> is_online (ex_offline (ex_identity 1024) False)
   \<and> \<not> cache_dataset_has_schema (cached_foundry_client (ex_offline (ex_identity 1024) False))
         (ex_identity 1024)
   \<and> fst (Input_init (ex_offline (ex_identity 1024) False) ''/repo/transform.py''
            ''/data/iris'' (Some ''master'') ex_world)
       = Inr (ex_input False 1024)
   \<and> filter is_no_schema_log
       (new_events ex_world
          (snd (Input_init (ex_offline (ex_identity 1024) False) ''/repo/transform.py''
                  ''/data/iris'' (Some ''master'') ex_world)))
       = []"
proof -
  have h: "is_online (ex_no_schema 1024)
       \<and> (rest_get_dataset_identity (foundry_rest_client (ex_no_schema 1024)) ''/data/iris''
            (requested_branch (ex_no_schema 1024) ''/repo/transform.py'' (Some ''master''))
            = Inr (ex_identity 1024)
          \<and> ''master'' = requested_branch (ex_no_schema 1024) ''/repo/transform.py''
                           (Some ''master'')
          \<or> rest_get_dataset_identity (foundry_rest_client (ex_no_schema 1024)) ''/data/iris''
              (requested_branch (ex_no_schema 1024) ''/repo/transform.py'' (Some ''master''))
              = Inl BranchNotFoundError
            \<and> rest_get_dataset_identity (foundry_rest_client (ex_no_schema 1024)) ''/data/iris''
                ''master'' = Inr (ex_identity 1024)
            \<and> ''master'' = ''master'')
       \<and> last_transaction_rid (ex_identity 1024) \<noteq> None
       \<and> rest_get_dataset_schema (foundry_rest_client (ex_no_schema 1024))
           (dataset_rid (ex_identity 1024)) (last_transaction_rid (ex_identity 1024)) ''master''
           = Inl DatasetHasNoSchemaError
       \<or> \<not> is_online (ex_no_schema 1024)
         \<and> cache_get_dataset_identity_not_branch_aware
             (cached_foundry_client (ex_no_schema 1024)) ''/data/iris'' = ex_identity 1024
         \<and> ''master'' = requested_branch (ex_no_schema 1024) ''/repo/transform.py''
                          (Some ''master'')
         \<and> \<not> cache_dataset_has_schema (cached_foundry_client (ex_no_schema 1024))
               (ex_identity 1024)"
    by simp
  have g: "is_online (ex_offline (ex_identity 1024) False)
       \<and> (rest_get_dataset_identity (foundry_rest_client (ex_offline (ex_identity 1024) False))
            ''/data/iris''
            (requested_branch (ex_offline (ex_identity 1024) False) ''/repo/transform.py''
               (Some ''master''))
            = Inr (ex_identity 1024)
          \<and> ''master'' = requested_branch (ex_offline (ex_identity 1024) False)
                           ''/repo/transform.py'' (Some ''master'')
          \<or> rest_get_dataset_identity (foundry_rest_client (ex_offline (ex_identity 1024) False))
              ''/data/iris''
              (requested_branch (ex_offline (ex_identity 1024) False) ''/repo/transform.py''
                 (Some ''master''))
              = Inl BranchNotFoundError
            \<and> rest_get_dataset_identity (foundry_rest_client (ex_offline (ex_identity 1024) False))
                ''/data/iris'' ''master'' = Inr (ex_identity 1024)
            \<and> ''master'' = ''master'')
       \<and> last_transaction_rid (ex_identity 1024) \<noteq> None
       \<and> rest_get_dataset_schema (foundry_rest_client (ex_offline (ex_identity 1024) False))
           (dataset_rid (ex_identity 1024)) (last_transaction_rid (ex_identity 1024)) ''master''
           = Inl DatasetHasNoSchemaError
       \<or> \<not> is_online (ex_offline (ex_identity 1024) False)
         \<and> cache_get_dataset_identity_not_branch_aware
             (cached_foundry_client (ex_offline (ex_identity 1024) False)) ''/data/iris''
             = ex_identity 1024
         \<and> ''master'' = requested_branch (ex_offline (ex_identity 1024) False)
                          ''/repo/transform.py'' (Some ''master'')
         \<and> \<not> cache_dataset_has_schema (cached_foundry_client (ex_offline (ex_identity 1024) False))
               (ex_identity 1024)"
    by simp
  have i: "\<lparr>self_is_spark_df_retrievable = False,
            self_dataset_identity = ex_identity 1024,
            self_branch = ''master'',
            self_spark_df = None\<rparr> = ex_input False 1024"
    by (simp add: ex_input_def)
  note on = C4_no_schema_file_only [OF h, where w = ex_world]
  note off = C4_no_schema_file_only [OF g, where w = ex_world]
  from on i have online_part:
    "fst (Input_init (ex_no_schema 1024) ''/repo/transform.py'' ''/data/iris''
            (Some ''master'') ex_world)
       = Inr (ex_input False 1024)
     \<and> filter is_no_schema_log
       (new_events ex_world
          (snd (Input_init (ex_no_schema 1024) ''/repo/transform.py'' ''/data/iris''
                  (Some ''master'') ex_world)))
       = [Debug_no_schema ''ri.foundry.main.dataset.1'' ''/data/iris'' ''master'']
     \<and> list_all dataframe_returned_none
       (fst (run_calls [(ex_no_schema 1024, Dataframe), (ex_online 1024, Dataframe)]
               (ex_input False 1024) ex_world))"
    by (simp del: run_calls.simps)
  from off i have offline_part:
    "fst (Input_init (ex_offline (ex_identity 1024) False) ''/repo/transform.py''
            ''/data/iris'' (Some ''master'') ex_world)
       = Inr (ex_input False 1024)
     \<and> filter is_no_schema_log
       (new_events ex_world
          (snd (Input_init (ex_offline (ex_identity 1024) False) ''/repo/transform.py''
                  ''/data/iris'' (Some ''master'') ex_world)))
       = []"
    by (simp del: run_calls.simps)
  from online_part offline_part show ?thesis
    by simp
qed

text \<open>
  C9: with the cache frozen the constructor takes the identity from the cache by the alias
  alone (the same identity whatever branch is requested), keeps the requested branch,
  makes no REST call and no transaction check: it never raises, so never the
  dataset-has-no-transactions error, also for an identity with no last transaction.
\<close>

theorem C9_offline_constructor:
  fixes ctx :: foundry_context and c :: string and a :: string and b :: "string option"
    and w :: world
  assumes frozen: "transforms_freeze_cache (config ctx)"
  shows "fst (Input_init ctx c a b w) =
           Inr \<lparr>self_is_spark_df_retrievable =
                   cache_dataset_has_schema (cached_foundry_client ctx)
                     (cache_get_dataset_identity_not_branch_aware (cached_foundry_client ctx) a),
                self_dataset_identity =
                   cache_get_dataset_identity_not_branch_aware (cached_foundry_client ctx) a,
                self_branch = requested_branch ctx c b,
                self_spark_df = None\<rparr>
       \<and> \<not> list_ex is_rest_call (new_events w (snd (Input_init ctx c a b w)))
       \<and> (\<forall>x. fst (Input_init ctx c a b w) \<noteq> Inl (DatasetHasNoTransactionsError x))
       \<and> (\<forall>b1 b2. map_sum id self_dataset_identity (fst (Input_init ctx c a (Some b1) w)) =
                   map_sum id self_dataset_identity (fst (Input_init ctx c a (Some b2) w)))
       \<and> cache (snd (Input_init ctx c a b w)) = cache w"
proof -
  from frozen have off: "\<not> is_online ctx"
    by (simp add: is_online_def)
  show ?thesis
    by (simp add: Input_init_offline [OF off] resolve_branch_list_ex)
qed

theorem C9_witness:
  "transforms_freeze_cache (config (ex_offline ex_empty_identity True))
   \<and> last_transaction_rid ex_empty_identity = None
   \<and> fst (Input_init (ex_offline ex_empty_identity True) ''/repo/transform.py'' ''/data/empty''
            (Some ''develop'') ex_world)
       = Inr \<lparr>self_is_spark_df_retrievable = True,
              self_dataset_identity = ex_empty_identity,
              self_branch = ''develop'',
              self_spark_df = None\<rparr>
   \<and> \<not> list_ex is_rest_call
         (new_events ex_world
            (snd (Input_init (ex_offline ex_empty_identity True) ''/repo/transform.py''
                    ''/data/empty'' (Some ''develop'') ex_world)))"
proof -
  have h: "transforms_freeze_cache (config (ex_offline ex_empty_identity True))"
    by simp
  from C9_offline_constructor [OF h, where w = ex_world] h
  show ?thesis by simp
qed

theorem C7_witness:
  "self_dataset_identity
     (fst (snd (run_calls [(ex_online 1024, Dataframe), (ex_online 1024, Get_local_path_to_dataset),
                           (ex_online 1024, Get_dataset_identity)]
                  (ex_input True 1024) ex_world)))
     = ex_identity 1024
   \<and> self_branch
       (fst (snd (run_calls [(ex_online 1024, Dataframe), (ex_online 1024, Get_local_path_to_dataset),
                             (ex_online 1024, Get_dataset_identity)]
                    (ex_input True 1024) ex_world)))
     = ''master''"
  using C7_calls_keep_identity_and_branch
          [where cs = "[(ex_online 1024, Dataframe), (ex_online 1024, Get_local_path_to_dataset),
                        (ex_online 1024, Get_dataset_identity)]"
             and self = "ex_input True 1024" and w = ex_world]
  by simp

end
